(* ===== verification/Prelude.thy ===== *)
theory Prelude
  imports Main "HOL-Library.Sublist" "HOL-Library.Multiset"
begin

text \<open>
  Shared vocabulary of the development: the Python exceptions the scripts can raise, the
  result type \<open>'a py_result\<close> in which every raise is a value, the Python idioms on
  lists that several components use (indexing with a possibly negative index, a
  comprehension or \<open>Series.apply\<close> that stops at the first exception), and the
  collections of rewrite rules the component theories share.
\<close>

named_theorems py_char_simps
  "rules that evaluate the Python character classes on concrete characters"

named_theorems py_result_simps
  "rules for the exception-propagating list operations"

declare char_of_eq_iff [py_char_simps] Let_def [py_char_simps]

text \<open>A Python \<open>str\<close>: a sequence of code points, here those of the range 0..255.\<close>

type_synonym pystr = string

text \<open>
  The exceptions of the scripts. Errors raised inside a third-party parser (pandas,
  python-docx, PyPDF2, PIL, pytesseract, pickle) are \<open>LibraryError\<close> with the
  library's message; the scripts never inspect them beyond printing.
\<close>

datatype py_error =
    TypeError
  | IndexError
  | NameError string
  | UnicodeDecodeError
  | FileNotFoundError string
  | LibraryError string

type_synonym 'a py_result = "py_error + 'a"

text \<open>Python's \<open>xs[i]\<close>: a negative index counts from the end, out of range raises.\<close>

definition py_index :: "'a list \<Rightarrow> int \<Rightarrow> 'a py_result" where
  "py_index xs i =
     (let pos = (if 0 \<le> i then i else i + int (length xs))
      in if pos < 0 \<or> int (length xs) \<le> pos then Inl IndexError else Inr (xs ! nat pos))"

text \<open>
  \<open>[f(x) for x in xs]\<close> and \<open>Series.apply(f)\<close> evaluate \<open>f\<close> left to right; the first
  exception propagates and no partial list is produced.
\<close>

fun py_map :: "('a \<Rightarrow> 'b py_result) \<Rightarrow> 'a list \<Rightarrow> 'b list py_result" where
  "py_map f [] = Inr []"
| "py_map f (x # xs) =
     (case f x of
        Inl e \<Rightarrow> Inl e
      | Inr y \<Rightarrow> (case py_map f xs of Inl e \<Rightarrow> Inl e | Inr ys \<Rightarrow> Inr (y # ys)))"

subsection \<open>Indexing\<close>

lemma py_index_0_Cons [simp, py_result_simps]: "py_index (x # xs) 0 = Inr x"
  by (simp add: py_index_def)

lemma py_index_0_Nil [simp, py_result_simps]: "py_index [] 0 = Inl IndexError"
  by (simp add: py_index_def)

lemma py_index_last [simp, py_result_simps]: "xs \<noteq> [] \<Longrightarrow> py_index xs (-1) = Inr (last xs)"
  by (cases xs rule: rev_cases) (simp_all add: py_index_def nth_append)

lemma py_index_0_iff: "py_index xs 0 = Inr y \<longleftrightarrow> (\<exists>ys. xs = y # ys)"
  by (cases xs) simp_all

subsection \<open>Exception-propagating map\<close>

lemma py_map_Inr_iff [py_result_simps]:
  "py_map f xs = Inr ys \<longleftrightarrow> list_all2 (\<lambda>x y. f x = Inr y) xs ys"
proof (induction xs arbitrary: ys)
  case Nil
  then show ?case by auto
next
  case (Cons x xs)
  show ?case
    by (cases ys) (auto split: sum.splits simp flip: Cons.IH)
qed

lemma py_map_length: "py_map f xs = Inr ys \<Longrightarrow> length ys = length xs"
  by (simp add: py_map_Inr_iff list_all2_lengthD)

lemma py_map_total [py_result_simps]:
  "(\<And>x. x \<in> set xs \<Longrightarrow> f x = Inr (g x)) \<Longrightarrow> py_map f xs = Inr (map g xs)"
  by (induction xs) auto

lemma py_map_Inl_iff:
  "(\<exists>e. py_map f xs = Inl e) \<longleftrightarrow> (\<exists>x \<in> set xs. \<exists>e. f x = Inl e)"
  by (induction xs) (auto split: sum.splits)

lemma py_map_first_error:
  "py_map f (xs @ x # zs) = Inl e \<Longrightarrow> py_map f xs = Inr ys \<Longrightarrow> f x = Inl e' \<Longrightarrow> e = e'"
  by (induction xs arbitrary: ys) (auto split: sum.splits)

lemma py_map_append_Inl:
  "py_map f xs = Inl e \<Longrightarrow> py_map f (xs @ zs) = Inl e"
  by (induction xs) (auto split: sum.splits)

lemma py_map_single_error:
  "(\<And>x. x \<in> set xs \<Longrightarrow> (\<exists>y. f x = Inr y) \<or> f x = Inl e) \<Longrightarrow>
   (\<exists>x \<in> set xs. f x = Inl e) \<Longrightarrow> py_map f xs = Inl e"
proof (induction xs)
  case (Cons a xs)
  consider (ok) y where "f a = Inr y" | (err) "f a = Inl e"
    using Cons.prems(1) by auto
  then show ?case
  proof cases
    case ok
    with Cons.prems(2) have "\<exists>x \<in> set xs. f x = Inl e" by auto
    with Cons.IH Cons.prems(1) have "py_map f xs = Inl e" by auto
    with ok show ?thesis by simp
  qed simp
qed simp

subsection \<open>Lists\<close>

lemma dropWhile_Cons_hd:
  "dropWhile P xs = y # ys \<Longrightarrow> \<not> P y"
  by (induction xs) (auto split: if_splits)

lemma list_all_takeWhile [simp]: "list_all P (takeWhile P xs)"
  by (induction xs) auto

lemma list_all_dropWhile: "list_all Q xs \<Longrightarrow> list_all Q (dropWhile P xs)"
  by (induction xs) auto

lemma list_all_take_iff:
  "n \<le> length xs \<Longrightarrow> list_all P (take n xs) \<longleftrightarrow> n \<le> length (takeWhile P xs)"
proof (induction xs arbitrary: n)
  case (Cons x xs)
  then show ?case by (cases n) auto
qed simp

lemma subseq_drop: "subseq (drop n xs) xs"
  using subseq_drop_many [OF subseq_order.refl, of "drop n xs" "take n xs"] by simp

lemma set_subseq: "subseq xs ys \<Longrightarrow> set xs \<subseteq> set ys"
  by (auto elim: list_emb_set)

lemma list_all_subseq: "subseq xs ys \<Longrightarrow> list_all P ys \<Longrightarrow> list_all P xs"
  using set_subseq by (fastforce simp: list_all_iff)

lemma list_all_rev_iff [simp]: "list_all P (rev xs) \<longleftrightarrow> list_all P xs"
  by (simp add: list_all_iff)

end
