(* ===== verification/PyStr.thy ===== *)
theory PyStr
  imports Prelude
begin

text \<open>
  The Python \<open>str\<close> operations the scripts call, on code points 0..255 (a \<open>char\<close> is read
  as the code point \<open>of_char c\<close>). The character classes are CPython's on that range:
  \<open>py_isspace\<close> is \<open>str.isspace\<close>, which is also what \<open>\s\<close> matches in a \<open>str\<close>
  pattern; \<open>py_isword\<close> is what \<open>\w\<close> matches (\<open>str.isalnum()\<close> or \<open>_\<close>);
  \<open>py_lower_char\<close> is \<open>str.lower\<close> on one code point (no code point below 256 lowers to
  several); \<open>is_linebreak\<close> is the set \<open>str.splitlines\<close> splits at.
  The operations are \<open>str.lower\<close>, \<open>str.strip()\<close>, \<open>str.splitlines()\<close> (translated from
  CPython's \<open>stringlib/split.h\<close> loop) and \<open>str.split(sep)\<close> with a one-character separator.
\<close>

subsection \<open>Character classes\<close>

definition py_isspace :: "char \<Rightarrow> bool" where
  "py_isspace c =
     (let n = (of_char c :: nat)
      in (9 \<le> n \<and> n \<le> 13) \<or> (28 \<le> n \<and> n \<le> 32) \<or> n = 133 \<or> n = 160)"

definition py_isword :: "char \<Rightarrow> bool" where
  "py_isword c =
     (let n = (of_char c :: nat)
      in (48 \<le> n \<and> n \<le> 57) \<or> (65 \<le> n \<and> n \<le> 90) \<or> n = 95 \<or> (97 \<le> n \<and> n \<le> 122)
         \<or> n = 170 \<or> n = 178 \<or> n = 179 \<or> n = 181 \<or> n = 185 \<or> n = 186
         \<or> (188 \<le> n \<and> n \<le> 190) \<or> (192 \<le> n \<and> n \<le> 214) \<or> (216 \<le> n \<and> n \<le> 246)
         \<or> 248 \<le> n)"

definition is_ascii_letter :: "char \<Rightarrow> bool" where
  "is_ascii_letter c =
     (let n = (of_char c :: nat) in (65 \<le> n \<and> n \<le> 90) \<or> (97 \<le> n \<and> n \<le> 122))"

definition is_ascii_lower :: "char \<Rightarrow> bool" where
  "is_ascii_lower c = (let n = (of_char c :: nat) in 97 \<le> n \<and> n \<le> 122)"

definition is_linebreak :: "char \<Rightarrow> bool" where
  "is_linebreak c =
     (let n = (of_char c :: nat) in (10 \<le> n \<and> n \<le> 13) \<or> (28 \<le> n \<and> n \<le> 30) \<or> n = 133)"

declare py_isspace_def [py_char_simps] py_isword_def [py_char_simps]
  is_ascii_letter_def [py_char_simps] is_ascii_lower_def [py_char_simps]
  is_linebreak_def [py_char_simps]

subsection \<open>\<open>str.lower\<close>\<close>

definition py_lower_char :: "char \<Rightarrow> char" where
  "py_lower_char c =
     (let n = (of_char c :: nat)
      in if (65 \<le> n \<and> n \<le> 90) \<or> (192 \<le> n \<and> n \<le> 222 \<and> n \<noteq> 215) then char_of (n + 32) else c)"

definition py_lower :: "pystr \<Rightarrow> pystr" where
  "py_lower s = map py_lower_char s"

declare py_lower_char_def [py_char_simps] py_lower_def [py_char_simps]

subsection \<open>\<open>str.strip()\<close>\<close>

definition py_lstrip :: "pystr \<Rightarrow> pystr" where
  "py_lstrip s = dropWhile py_isspace s"

definition py_rstrip :: "pystr \<Rightarrow> pystr" where
  "py_rstrip s = rev (dropWhile py_isspace (rev s))"

definition py_strip :: "pystr \<Rightarrow> pystr" where
  "py_strip s = py_rstrip (py_lstrip s)"

text \<open>A string that \<open>strip\<close> leaves alone: empty, or no whitespace at either end.\<close>

definition trimmed :: "pystr \<Rightarrow> bool" where
  "trimmed s = (s = [] \<or> (\<not> py_isspace (hd s) \<and> \<not> py_isspace (last s)))"

subsection \<open>\<open>str.splitlines()\<close>\<close>

text \<open>
  After a line, CPython skips one line break, reading \<open>\r\n\<close> as one; a break at the very
  end of the string yields no further (empty) line.
\<close>

definition skip_linebreak :: "pystr \<Rightarrow> pystr" where
  "skip_linebreak r =
     (case r of
        [] \<Rightarrow> []
      | c # r' \<Rightarrow> (if c = CHR 0x0D \<and> r' \<noteq> [] \<and> hd r' = CHR 0x0A then tl r' else r'))"

function py_splitlines :: "pystr \<Rightarrow> pystr list" where
  "py_splitlines s =
     (if s = [] then []
      else takeWhile (\<lambda>c. \<not> is_linebreak c) s
           # py_splitlines (skip_linebreak (dropWhile (\<lambda>c. \<not> is_linebreak c) s)))"
  by pat_completeness auto
termination
proof (relation "measure length")
  fix s :: pystr
  assume "\<not> s = []"
  let ?r = "dropWhile (\<lambda>c. \<not> is_linebreak c) s"
  show "(skip_linebreak ?r, s) \<in> measure length"
  proof (cases "?r = []")
    case True
    with \<open>\<not> s = []\<close> show ?thesis
      by (simp add: skip_linebreak_def del: dropWhile_eq_Nil_conv)
  next
    case False
    then have "length (skip_linebreak ?r) < length ?r"
      by (cases ?r) (auto simp: skip_linebreak_def)
    also have "\<dots> \<le> length s" by (rule length_dropWhile_le)
    finally show ?thesis by simp
  qed
qed simp

declare py_splitlines.simps [simp del]

subsection \<open>\<open>str.split(sep)\<close> with a one-character separator\<close>

fun py_split_char :: "char \<Rightarrow> pystr \<Rightarrow> pystr list" where
  "py_split_char d [] = [[]]"
| "py_split_char d (c # cs) =
     (let r = py_split_char d cs in if c = d then [] # r else (c # hd r) # tl r)"

text \<open>\<open>sep.join(ls)\<close>, the inverse the round-trip lemmas are stated with.\<close>

fun py_join :: "pystr \<Rightarrow> pystr list \<Rightarrow> pystr" where
  "py_join sep [] = []"
| "py_join sep [l] = l"
| "py_join sep (l # l' # ls) = l @ sep @ py_join sep (l' # ls)"

section \<open>Lemmas\<close>

subsection \<open>Character class facts\<close>

lemma ascii_letter_not_space: "is_ascii_letter c \<Longrightarrow> \<not> py_isspace c"
  by (auto simp add: py_char_simps)

lemma ascii_letter_isword: "is_ascii_letter c \<Longrightarrow> py_isword c"
  by (auto simp add: py_char_simps)

lemma space_not_isword: "py_isspace c \<Longrightarrow> \<not> py_isword c"
  by (auto simp add: py_char_simps)

lemma ascii_lower_letter: "is_ascii_lower c \<Longrightarrow> is_ascii_letter c"
  by (simp add: py_char_simps)

lemma py_lower_char_space: "py_isspace c \<Longrightarrow> py_lower_char c = c"
  by (auto simp add: py_isspace_def py_lower_char_def Let_def)

lemma py_lower_char_ascii_lower: "is_ascii_lower c \<Longrightarrow> py_lower_char c = c"
  by (auto simp add: is_ascii_lower_def py_lower_char_def Let_def)

lemma py_lower_char_letter: "is_ascii_letter c \<Longrightarrow> is_ascii_lower (py_lower_char c)"
  by (auto simp add: is_ascii_letter_def is_ascii_lower_def py_lower_char_def Let_def)


subsection \<open>strip\<close>

lemma py_strip_Nil_iff: "py_strip s = [] \<longleftrightarrow> list_all py_isspace s"
proof -
  have "py_strip s = [] \<longleftrightarrow> (\<forall>x \<in> set (dropWhile py_isspace s). py_isspace x)"
    by (simp add: py_strip_def py_lstrip_def py_rstrip_def)
  also have "\<dots> \<longleftrightarrow> dropWhile py_isspace s = []"
  proof (cases "dropWhile py_isspace s")
    case (Cons y ys)
    then have "\<not> py_isspace y" by (rule dropWhile_Cons_hd)
    with Cons show ?thesis by auto
  qed (simp del: dropWhile_eq_Nil_conv)
  also have "\<dots> \<longleftrightarrow> list_all py_isspace s"
    by (simp add: list_all_iff)
  finally show ?thesis .
qed

lemma py_strip_trimmed: "trimmed (py_strip s)"
proof -
  let ?l = "dropWhile py_isspace s"
  let ?r = "dropWhile py_isspace (rev ?l)"
  show ?thesis
  proof (cases "?r = []")
    case True
    then show ?thesis
      by (simp add: trimmed_def py_strip_def py_lstrip_def py_rstrip_def del: dropWhile_eq_Nil_conv)
  next
    case False
    then have "?l \<noteq> []" by (auto dest: set_dropWhileD)
    then have l: "\<not> py_isspace (hd ?l)" by (rule hd_dropWhile)
    from False have r: "\<not> py_isspace (hd ?r)" by (rule hd_dropWhile)
    from \<open>?l \<noteq> []\<close> have "last (rev ?l) = hd ?l" by (simp add: last_rev)
    moreover from \<open>?l \<noteq> []\<close> l have "last ?r = last (rev ?l)"
      by (intro dropWhile_last [of "hd ?l"]) simp_all
    ultimately have "\<not> py_isspace (last ?r)" using l by simp
    with r False show ?thesis
      by (simp add: trimmed_def py_strip_def py_lstrip_def py_rstrip_def hd_rev last_rev)
  qed
qed

lemma py_strip_id: "trimmed s \<Longrightarrow> py_strip s = s"
proof (cases s rule: rev_cases)
  case (snoc ys y)
  assume "trimmed s"
  with snoc have "\<not> py_isspace (hd s)" and "\<not> py_isspace y" by (auto simp: trimmed_def)
  with snoc show ?thesis
    by (cases ys) (simp_all add: py_strip_def py_lstrip_def py_rstrip_def)
qed (simp add: py_strip_def py_lstrip_def py_rstrip_def)

lemma py_strip_idem: "py_strip (py_strip s) = py_strip s"
  by (rule py_strip_id [OF py_strip_trimmed])

lemma py_strip_eq_iff_trimmed: "py_strip s = s \<longleftrightarrow> trimmed s"
  by (metis py_strip_id py_strip_trimmed)

lemma sublist_py_strip: "sublist (py_strip s) s"
proof -
  have "sublist (rev (dropWhile py_isspace (rev (dropWhile py_isspace s)))) (dropWhile py_isspace s)"
    by (simp add: sublist_rev_left)
  then show ?thesis
    unfolding py_strip_def py_lstrip_def py_rstrip_def
    by (rule sublist_order.order.trans [OF _ sublist_dropWhile])
qed

lemma list_all_py_strip: "list_all P s \<Longrightarrow> list_all P (py_strip s)"
  unfolding list_all_iff using set_mono_sublist [OF sublist_py_strip] by blast

lemma py_lower_list_all:
  "list_all (\<lambda>c. is_ascii_letter c \<or> py_isspace c) s \<Longrightarrow>
   list_all (\<lambda>c. is_ascii_lower c \<or> py_isspace c) (py_lower s)"
  by (induction s) (auto simp: py_lower_def py_lower_char_letter py_lower_char_space)

lemma py_lower_id: "list_all (\<lambda>c. is_ascii_lower c \<or> py_isspace c) s \<Longrightarrow> py_lower s = s"
  by (induction s) (auto simp: py_lower_def py_lower_char_ascii_lower py_lower_char_space)

subsection \<open>splitlines\<close>

lemma py_splitlines_Nil [simp]: "py_splitlines [] = []"
  by (simp add: py_splitlines.simps)

lemma py_splitlines_nonempty:
  "s \<noteq> [] \<Longrightarrow> py_splitlines s =
     takeWhile (\<lambda>c. \<not> is_linebreak c) s
     # py_splitlines (skip_linebreak (dropWhile (\<lambda>c. \<not> is_linebreak c) s))"
  by (simp add: py_splitlines.simps)

lemma py_splitlines_Nil_iff: "py_splitlines s = [] \<longleftrightarrow> s = []"
  by (cases "s = []") (simp_all add: py_splitlines_nonempty)

lemma py_splitlines_no_break:
  "list_all (list_all (\<lambda>c. \<not> is_linebreak c)) (py_splitlines s)"
proof (induction s rule: py_splitlines.induct)
  case (1 s)
  then show ?case
    by (cases "s = []") (simp_all add: py_splitlines_nonempty)
qed

text \<open>Splitlines inverts joining with a newline, for lines without line breaks whose last line is not empty.\<close>

lemma py_splitlines_join:
  "list_all (list_all (\<lambda>c. \<not> is_linebreak c)) ls \<Longrightarrow> (ls = [] \<or> last ls \<noteq> []) \<Longrightarrow>
   py_splitlines (py_join [CHR 0x0A] ls) = ls"
proof (induction ls)
  case Nil
  then show ?case by simp
next
  case (Cons l ls)
  have nb: "\<forall>c \<in> set l. \<not> is_linebreak c" using Cons.prems(1) by (simp add: list_all_iff)
  have lf: "is_linebreak (CHR 0x0A)" by (simp add: py_char_simps)
  show ?case
  proof (cases "ls = []")
    case True
    with Cons.prems(2) have "l \<noteq> []" by simp
    moreover from nb have "dropWhile (\<lambda>c. \<not> is_linebreak c) l = []" by simp
    ultimately show ?thesis using True nb
      by (simp add: py_splitlines_nonempty skip_linebreak_def del: dropWhile_eq_Nil_conv)
  next
    case False
    then have "py_join [CHR 0x0A] (l # ls) = l @ CHR 0x0A # py_join [CHR 0x0A] ls"
      by (cases ls) simp_all
    moreover have "py_splitlines (py_join [CHR 0x0A] ls) = ls"
      using Cons.prems False by (intro Cons.IH) simp_all
    ultimately show ?thesis
      using nb lf by (simp add: py_splitlines_nonempty skip_linebreak_def takeWhile_append2
          dropWhile_append2)
  qed
qed

subsection \<open>split on one character\<close>

lemma py_split_char_nonempty [simp]: "py_split_char d s \<noteq> []"
  by (induction s) (simp_all add: Let_def)

lemma py_join_Cons_hd: "py_join sep ((c # a) # r) = c # py_join sep (a # r)"
  by (cases r) simp_all

text \<open>Joining the pieces of str.split with the separator gives back the string.\<close>

lemma py_split_char_join: "py_join [d] (py_split_char d s) = s"
proof (induction s)
  case (Cons c cs)
  then show ?case
    by (cases "py_split_char d cs") (auto simp: Let_def py_join_Cons_hd)
qed simp

lemma py_split_char_no_sep: "list_all (list_all (\<lambda>c. c \<noteq> d)) (py_split_char d s)"
proof (induction s)
  case (Cons c cs)
  then show ?case
    by (cases "py_split_char d cs") (auto simp: Let_def)
qed simp

lemma py_split_char_snoc:
  "py_split_char d (xs @ [c]) =
     (if c = d then py_split_char d xs @ [[]]
      else butlast (py_split_char d xs) @ [last (py_split_char d xs) @ [c]])"
proof (induction xs)
  case (Cons x xs)
  then show ?case
    by (cases "py_split_char d xs") (auto simp: Let_def split: if_splits)
qed simp

lemma last_py_split_char: "last (py_split_char d s) = rev (takeWhile (\<lambda>c. c \<noteq> d) (rev s))"
  by (induction s rule: rev_induct) (simp_all add: py_split_char_snoc)

end
