(* ===== verification/Regex.thy ===== *)
theory Regex
  imports PyStr
begin

text \<open>
  \<open>re.sub(pattern, repl, s)\<close> for the patterns of \<open>clean_text\<close>. A pattern is modelled by
  its matcher at the head of a string: \<open>m s = Some n\<close> when the regex engine, started at
  the first character of \<open>s\<close>, matches the first \<open>n\<close> characters, \<open>None\<close> when it fails
  there. None of the patterns looks behind or is anchored, so whether a match starts at a
  position depends only on the text from that position on, and the leftmost match at or
  after a position is the first position the head matcher accepts.
\<close>

subsection \<open>Matchers\<close>

text \<open>
  \<open>lit C+\<close>: a literal followed by one or more characters of a class, as in
  \<open>http\S+\<close>, \<open>@\w+\<close> and \<open>#\w+\<close>. The engine's greedy \<open>+\<close> takes the longest run of
  class characters and nothing follows it in the pattern, so it never backtracks.
\<close>

definition match_lit_plus :: "pystr \<Rightarrow> (char \<Rightarrow> bool) \<Rightarrow> pystr \<Rightarrow> nat option" where
  "match_lit_plus lit P s =
     (let r = drop (length lit) s
      in if take (length lit) s = lit \<and> r \<noteq> [] \<and> P (hd r)
         then Some (length lit + length (takeWhile P r)) else None)"

text \<open>A one-character class, as in \<open>[^a-zA-Z\s]\<close>.\<close>

definition match_class :: "(char \<Rightarrow> bool) \<Rightarrow> pystr \<Rightarrow> nat option" where
  "match_class P s = (case s of [] \<Rightarrow> None | c # _ \<Rightarrow> if P c then Some 1 else None)"

text \<open>
  The reference semantics of \<open>lit C+\<close>: the language of the pattern, as a predicate on
  strings.
\<close>

definition lang_lit_plus :: "pystr \<Rightarrow> (char \<Rightarrow> bool) \<Rightarrow> pystr \<Rightarrow> bool" where
  "lang_lit_plus lit P w =
     (take (length lit) w = lit \<and> length lit < length w \<and> list_all P (drop (length lit) w))"

subsection \<open>Substitution\<close>

text \<open>
  CPython's \<open>pattern.sub\<close> loop: at each position try the pattern; on a non-empty match
  emit the replacement and continue after the match; on an empty match emit the
  replacement and the current character and move one on; on failure emit the character.
  At the end of the string one more (empty) match is tried.
\<close>

function re_sub :: "(pystr \<Rightarrow> nat option) \<Rightarrow> pystr \<Rightarrow> pystr \<Rightarrow> pystr" where
  "re_sub m repl [] = (if m [] = Some 0 then repl else [])"
| "re_sub m repl (c # cs) =
     (case m (c # cs) of
        None \<Rightarrow> c # re_sub m repl cs
      | Some n \<Rightarrow>
          if n = 0 then repl @ c # re_sub m repl cs
          else repl @ re_sub m repl (drop n (c # cs)))"
  by pat_completeness auto
termination
  by (relation "measure (\<lambda>(m, repl, s). length s)") auto

section \<open>Lemmas\<close>

subsection \<open>The greedy matcher finds the longest match\<close>

lemma lang_lit_plus_take:
  assumes "j \<le> length s"
  shows "lang_lit_plus lit P (take j s) \<longleftrightarrow>
    take (length lit) s = lit \<and> length lit < j
    \<and> j - length lit \<le> length (takeWhile P (drop (length lit) s))"
proof (cases "length lit < j")
  case True
  then have "take (length lit) (take j s) = take (length lit) s" by (simp add: min_def)
  moreover have "drop (length lit) (take j s) = take (j - length lit) (drop (length lit) s)"
    by (simp add: drop_take)
  moreover have "j - length lit \<le> length (drop (length lit) s)" using assms by simp
  ultimately show ?thesis
    using True assms by (simp add: lang_lit_plus_def list_all_take_iff)
qed (simp add: lang_lit_plus_def assms)

subsection \<open>A \<open>lit C+\<close> substitution leaves no match behind\<close>

lemma match_lit_plus_Some_iff:
  "(\<exists>n. match_lit_plus lit P s = Some n) \<longleftrightarrow> (\<exists>c. prefix (lit @ [c]) s \<and> P c)"
proof
  assume "\<exists>n. match_lit_plus lit P s = Some n"
  then have t: "take (length lit) s = lit" and r: "drop (length lit) s \<noteq> []"
    and p: "P (hd (drop (length lit) s))"
    by (auto simp: match_lit_plus_def Let_def split: if_splits)
  have "s = lit @ hd (drop (length lit) s) # tl (drop (length lit) s)"
    using t r by (metis append_take_drop_id list.collapse)
  then have "prefix (lit @ [hd (drop (length lit) s)]) s"
    by (metis append.assoc append_Cons append_Nil prefixI)
  with p show "\<exists>c. prefix (lit @ [c]) s \<and> P c" by blast
next
  assume "\<exists>c. prefix (lit @ [c]) s \<and> P c"
  then obtain c zs where s: "s = lit @ c # zs" and "P c"
    by (auto simp: prefix_def)
  then show "\<exists>n. match_lit_plus lit P s = Some n"
    by (simp add: match_lit_plus_def)
qed

lemma match_lit_plus_pos: "match_lit_plus lit P s = Some n \<Longrightarrow> 0 < n"
  by (cases "drop (length lit) s") (auto simp: match_lit_plus_def Let_def split: if_splits)

lemma match_lit_plus_rest:
  "match_lit_plus lit P s = Some n \<Longrightarrow> takeWhile P (drop n s) = []"
proof -
  assume "match_lit_plus lit P s = Some n"
  then have n: "n = length lit + length (takeWhile P (drop (length lit) s))"
    by (simp add: match_lit_plus_def Let_def split: if_splits)
  have "drop n s = dropWhile P (drop (length lit) s)"
    by (simp add: n dropWhile_eq_drop add.commute)
  moreover have "takeWhile P (dropWhile P r) = []" for r :: pystr
    by (induction r) auto
  ultimately show ?thesis by simp
qed

lemma prefix_takeWhile:
  "list_all P w \<Longrightarrow> prefix w xs \<Longrightarrow> prefix w (takeWhile P xs)"
proof (induction w arbitrary: xs)
  case (Cons a w)
  then show ?case by (cases xs) auto
qed simp

text \<open>
  The part of the output that starts with class characters is a prefix of the input's:
  a deletion is always followed by a character outside the class, or the end.
\<close>

lemma re_sub_lit_plus_takeWhile:
  "prefix (takeWhile P (re_sub (match_lit_plus lit P) [] s)) (takeWhile P s)"
proof (induction "match_lit_plus lit P" "[] :: pystr" s rule: re_sub.induct)
  case (2 c cs)
  show ?case
  proof (cases "match_lit_plus lit P (c # cs)")
    case None
    with 2 show ?thesis by simp
  next
    case (Some n)
    then have "0 < n" by (rule match_lit_plus_pos)
    with 2 Some match_lit_plus_rest [OF Some] show ?thesis by simp
  qed
qed simp

text \<open>
  Substituting \<open>lit C+\<close> (a literal of class characters) by the empty string leaves no
  occurrence of the pattern: no \<open>lit\<close> followed by a class character survives,
  although the deletions join the text around them.
\<close>

lemma re_sub_lit_plus_complete:
  assumes "P c" and "list_all P lit"
  shows "\<not> sublist (lit @ [c]) (re_sub (match_lit_plus lit P) [] s)"
proof (induction "match_lit_plus lit P" "[] :: pystr" s rule: re_sub.induct)
  case 1
  then show ?case by (simp add: match_lit_plus_def)
next
  case (2 x xs)
  show ?case
  proof (cases "match_lit_plus lit P (x # xs)")
    case None
    have "\<not> prefix (lit @ [c]) (re_sub (match_lit_plus lit P) [] (x # xs))"
    proof
      assume "prefix (lit @ [c]) (re_sub (match_lit_plus lit P) [] (x # xs))"
      then have "prefix (lit @ [c]) (takeWhile P (re_sub (match_lit_plus lit P) [] (x # xs)))"
        using assms by (simp add: prefix_takeWhile)
      then have "prefix (lit @ [c]) (takeWhile P (x # xs))"
        using re_sub_lit_plus_takeWhile by (rule prefix_order.trans)
      then have "prefix (lit @ [c]) (x # xs)"
        using takeWhile_is_prefix by (rule prefix_order.trans)
      with assms(1) None match_lit_plus_Some_iff [of lit P "x # xs"] show False by auto
    qed
    with None 2 show ?thesis by (simp add: sublist_Cons_right)
  next
    case (Some n)
    then have "0 < n" by (rule match_lit_plus_pos)
    with Some 2 show ?thesis by simp
  qed
qed

text \<open>the greedy matcher of a pattern lit C+ returns n exactly when the first n characters are in the pattern's language and no longer prefix is: greedy matching is longest matching.\<close>

lemma match_lit_plus_longest:
  "match_lit_plus lit P s = Some n \<longleftrightarrow>
     n \<le> length s \<and> lang_lit_plus lit P (take n s)
     \<and> (\<forall>j \<le> length s. lang_lit_plus lit P (take j s) \<longrightarrow> j \<le> n)"
proof -
  let ?L = "length lit" and ?r = "drop (length lit) s"
  let ?k = "length (takeWhile P ?r)"
  have k_le: "?L + ?k \<le> length s" if "take ?L s = lit"
  proof -
    from that have "length (take ?L s) = ?L" by simp
    then have "?L \<le> length s" by simp
    then show ?thesis using length_takeWhile_le [of P ?r] by simp
  qed
  have k_pos: "0 < ?k \<longleftrightarrow> ?r \<noteq> [] \<and> P (hd ?r)"
    by (cases ?r) simp_all
  show ?thesis
  proof
    assume "match_lit_plus lit P s = Some n"
    then have h: "take ?L s = lit" "0 < ?k" and n: "n = ?L + ?k"
      using k_pos by (auto simp: match_lit_plus_def Let_def split: if_splits)
    show "n \<le> length s \<and> lang_lit_plus lit P (take n s)
       \<and> (\<forall>j \<le> length s. lang_lit_plus lit P (take j s) \<longrightarrow> j \<le> n)"
      using h n k_le by (auto simp: lang_lit_plus_take)
  next
    assume a: "n \<le> length s \<and> lang_lit_plus lit P (take n s)
       \<and> (\<forall>j \<le> length s. lang_lit_plus lit P (take j s) \<longrightarrow> j \<le> n)"
    then have h: "take ?L s = lit" "?L < n" "n - ?L \<le> ?k"
      by (auto simp: lang_lit_plus_take)
    then have "0 < ?k" by arith
    with h k_le have "lang_lit_plus lit P (take (?L + ?k) s)"
      by (simp add: lang_lit_plus_take)
    with a h k_le have "?L + ?k \<le> n" by blast
    with h have "n = ?L + ?k" by simp
    with h(1) \<open>0 < ?k\<close> k_pos show "match_lit_plus lit P s = Some n"
      by (simp add: match_lit_plus_def Let_def)
  qed
qed

subsection \<open>Substitution with the empty replacement\<close>

text \<open>With an empty replacement, substitution only deletes: its result is a subsequence.\<close>

lemma subseq_re_sub: "subseq (re_sub m [] s) s"
proof (induction m "[] :: pystr" s rule: re_sub.induct)
  case (2 m c cs)
  show ?case
  proof (cases "m (c # cs)")
    case (Some n)
    with 2 show ?thesis
      by (cases "n = 0") (auto intro: subseq_order.trans [OF _ subseq_drop])
  qed (use 2 in simp)
qed simp

lemma length_re_sub: "length (re_sub m [] s) \<le> length s"
  using subseq_re_sub by (rule list_emb_length)

text \<open>Where the pattern matches at no position, substitution changes nothing.\<close>

lemma re_sub_no_match:
  "(\<And>t. suffix t s \<Longrightarrow> t \<noteq> [] \<Longrightarrow> m t = None) \<Longrightarrow> re_sub m [] s = s"
proof (induction s)
  case (Cons c cs)
  have "m (c # cs) = None" by (rule Cons.prems) simp_all
  moreover have "re_sub m [] cs = cs"
    by (rule Cons.IH, rule Cons.prems) (auto intro: suffix_ConsI)
  ultimately show ?case by simp
qed simp

lemma match_lit_plus_prefix: "match_lit_plus lit P s = Some n \<Longrightarrow> prefix lit s"
proof -
  assume "match_lit_plus lit P s = Some n"
  then have "take (length lit) s = lit" by (simp add: match_lit_plus_def Let_def split: if_splits)
  then have "s = lit @ drop (length lit) s" by (metis append_take_drop_id)
  then show "prefix lit s" by (metis prefixI)
qed

text \<open>A \<open>lit C+\<close> pattern removes nothing from a text in which \<open>lit\<close> does not occur.\<close>

lemma re_sub_lit_plus_no_lit:
  "\<not> sublist lit s \<Longrightarrow> re_sub (match_lit_plus lit P) [] s = s"
proof (rule re_sub_no_match)
  fix t assume "\<not> sublist lit s" and "suffix t s" and "t \<noteq> []"
  show "match_lit_plus lit P t = None"
  proof (rule ccontr)
    assume "match_lit_plus lit P t \<noteq> None"
    then have "prefix lit t" by (auto dest: match_lit_plus_prefix)
    with \<open>suffix t s\<close> have "sublist lit s" by (auto simp: sublist_altdef')
    with \<open>\<not> sublist lit s\<close> show False by contradiction
  qed
qed

text \<open>
  A one-character class is removed character by character: the scan is the filter that
  keeps the characters outside the class.
\<close>

lemma re_sub_match_class_filter: "re_sub (match_class P) [] s = filter (\<lambda>c. \<not> P c) s"
  by (induction s) (simp_all add: match_class_def)

end
