(* ===== verification/Cleaner.thy ===== *)
theory Cleaner
  imports Regex
begin

text \<open>
  \<open>clean_text\<close> (src/app1.py lines 17--22, identical in src/app2.py lines 30--35): four
  global substitutions with the empty replacement, then \<open>lower()\<close> and \<open>strip()\<close>.
\<close>

definition pat_url :: "pystr \<Rightarrow> nat option" where
  "pat_url = match_lit_plus ''http'' (\<lambda>c. \<not> py_isspace c)"

definition pat_mention :: "pystr \<Rightarrow> nat option" where
  "pat_mention = match_lit_plus ''@'' py_isword"

definition pat_hashtag :: "pystr \<Rightarrow> nat option" where
  "pat_hashtag = match_lit_plus ''#'' py_isword"

definition pat_nonletter :: "pystr \<Rightarrow> nat option" where
  "pat_nonletter = match_class (\<lambda>c. \<not> (is_ascii_letter c \<or> py_isspace c))"

definition clean_text :: "pystr \<Rightarrow> pystr" where
  "clean_text text =
     (let text = re_sub pat_url [] text;
          text = re_sub pat_mention [] text;
          text = re_sub pat_hashtag [] text;
          text = re_sub pat_nonletter [] text
      in py_strip (py_lower text))"

text \<open>The characters \<open>clean_text\<close> may leave: lower-case ASCII letters and whitespace.\<close>

definition clean_char :: "char \<Rightarrow> bool" where
  "clean_char c = (is_ascii_lower c \<or> py_isspace c)"

section \<open>Lemmas\<close>

lemmas clean_patterns = pat_url_def pat_mention_def pat_hashtag_def pat_nonletter_def

lemma re_sub_nonletter:
  "list_all (\<lambda>c. is_ascii_letter c \<or> py_isspace c) (re_sub pat_nonletter [] t)"
  by (simp add: pat_nonletter_def re_sub_match_class_filter list_all_iff)

lemma clean_char_no_lit:
  "list_all clean_char t \<Longrightarrow> \<not> clean_char c \<Longrightarrow> \<not> sublist [c] t"
  by (auto simp: list_all_iff dest: set_mono_sublist)

lemma not_clean_at: "\<not> clean_char (CHR ''@'')" and not_clean_hash: "\<not> clean_char (CHR ''#'')"
  by (simp_all add: clean_char_def py_char_simps)

text \<open>On text already in clean form, the last three substitutions and \<open>lower\<close> do nothing.\<close>

lemma clean_steps_id:
  assumes "list_all clean_char t"
  shows "py_lower (re_sub pat_nonletter [] (re_sub pat_hashtag [] (re_sub pat_mention [] t))) = t"
proof -
  have m: "re_sub pat_mention [] t = t"
    unfolding pat_mention_def
    by (rule re_sub_lit_plus_no_lit) (use clean_char_no_lit [OF assms not_clean_at] in simp)
  have h: "re_sub pat_hashtag [] t = t"
    unfolding pat_hashtag_def
    by (rule re_sub_lit_plus_no_lit) (use clean_char_no_lit [OF assms not_clean_hash] in simp)
  have "\<forall>c \<in> set t. is_ascii_letter c \<or> py_isspace c"
    using assms by (auto simp: list_all_iff clean_char_def ascii_lower_letter)
  then have n: "re_sub pat_nonletter [] t = t"
    by (simp add: pat_nonletter_def re_sub_match_class_filter)
  have "py_lower t = t"
    using assms unfolding clean_char_def by (rule py_lower_id)
  with m h n show ?thesis by simp
qed

lemma list_all_clean_text: "list_all clean_char (clean_text s)"
proof -
  let ?t = "re_sub pat_nonletter [] (re_sub pat_hashtag [] (re_sub pat_mention []
              (re_sub pat_url [] s)))"
  have "list_all (\<lambda>c. is_ascii_lower c \<or> py_isspace c) (py_lower ?t)"
    by (rule py_lower_list_all [OF re_sub_nonletter])
  then show ?thesis
    unfolding clean_text_def clean_char_def Let_def by (rule list_all_py_strip)
qed

lemma py_strip_clean_text: "py_strip (clean_text s) = clean_text s"
  by (simp add: clean_text_def Let_def py_strip_idem)

lemma clean_text_twice:
  "clean_text (clean_text s) = py_strip (re_sub pat_url [] (clean_text s))"
proof -
  let ?u = "re_sub pat_url [] (clean_text s)"
  have "list_all clean_char ?u"
    by (rule list_all_subseq [OF subseq_re_sub list_all_clean_text])
  then show ?thesis
    by (simp add: clean_text_def [of "clean_text s"] Let_def clean_steps_id)
qed

text \<open>C3: applying clean_text a second time changes its result exactly when the URL substitution still finds a match in the cleaned text.\<close>

theorem clean_text_idem_iff:
  "clean_text (clean_text s) = clean_text s \<longleftrightarrow> re_sub pat_url [] (clean_text s) = clean_text s"
proof
  let ?t = "clean_text s"
  let ?u = "re_sub pat_url [] ?t"
  assume "clean_text ?t = ?t"
  then have eq: "py_strip ?u = ?t" by (simp add: clean_text_twice)
  have "length ?t \<le> length ?u"
    using sublist_py_strip [of ?u] by (simp add: eq sublist_length_le)
  then have "length ?u = length ?t" using length_re_sub [of pat_url ?t] by simp
  then show "?u = ?t" by (rule subseq_same_length [OF subseq_re_sub])
next
  assume "re_sub pat_url [] (clean_text s) = clean_text s"
  then show "clean_text (clean_text s) = clean_text s"
    by (simp add: clean_text_twice py_strip_clean_text)
qed

text \<open>C4: clean_text is idempotent on every input whose cleaned form does not contain the letters http in a row.\<close>

theorem clean_text_idem_no_http:
  "\<not> sublist ''http'' (clean_text s) \<Longrightarrow> clean_text (clean_text s) = clean_text s"
proof -
  assume "\<not> sublist ''http'' (clean_text s)"
  then have "re_sub pat_url [] (clean_text s) = clean_text s"
    unfolding pat_url_def by (rule re_sub_lit_plus_no_lit)
  then show ?thesis by (simp add: clean_text_twice py_strip_clean_text)
qed

lemma clean_text_upper_url: "clean_text ''HTTP://x.co'' = ''httpxco''"
  by (simp add: clean_text_def clean_patterns match_lit_plus_def match_class_def
      py_strip_def py_lstrip_def py_rstrip_def py_char_simps)

lemma clean_text_httpxco: "clean_text ''httpxco'' = []"
  by (simp add: clean_text_def clean_patterns match_lit_plus_def match_class_def
      py_strip_def py_lstrip_def py_rstrip_def py_char_simps)

text \<open>clean_text is not idempotent, contrary to the spec: HTTP://x.co cleans to httpxco, which cleans to the empty string, because URLs are removed before case-folding and punctuation removal.\<close>

lemma clean_text_not_idempotent:
  "clean_text (clean_text ''HTTP://x.co'') \<noteq> clean_text ''HTTP://x.co''"
  by (simp add: clean_text_upper_url clean_text_httpxco)

text \<open>C5: cleaning only deletes characters: the result is a subsequence of the lower-cased input.\<close>

theorem clean_text_subseq_lower: "subseq (clean_text s) (py_lower s)"
proof -
  let ?t = "re_sub pat_nonletter [] (re_sub pat_hashtag [] (re_sub pat_mention []
              (re_sub pat_url [] s)))"
  have "subseq ?t s"
    by (meson subseq_re_sub subseq_order.trans)
  then have "subseq (py_lower ?t) (py_lower s)"
    unfolding py_lower_def by (rule subseq_map)
  moreover have "subseq (py_strip (py_lower ?t)) (py_lower ?t)"
    by (rule sublist_imp_subseq [OF sublist_py_strip])
  ultimately show ?thesis
    unfolding clean_text_def Let_def by (rule subseq_order.trans [rotated])
qed

text \<open>C1: every character clean_text leaves is a lower-case ASCII letter or whitespace.\<close>

theorem clean_text_chars: "list_all clean_char (clean_text s)"
  by (rule list_all_clean_text)

text \<open>C2: the result of clean_text has no leading or trailing whitespace: strip leaves it unchanged.\<close>

theorem clean_text_trimmed: "py_strip (clean_text s) = clean_text s"
  by (rule py_strip_clean_text)



text \<open>The spec's example: the URL, the hashtag, the mention, the punctuation and the digits go, and the rest is lower-cased and trimmed.\<close>

lemma clean_text_example:
  "clean_text ''Check this out! http://x.co #happy @friend 123'' = ''check this out''"
  by (simp add: clean_text_def clean_patterns match_lit_plus_def match_class_def
      py_strip_def py_lstrip_def py_rstrip_def py_char_simps)

lemma http_not_space: "list_all (\<lambda>c. \<not> py_isspace c) ''http''"
  by (simp add: py_isspace_def py_char_simps)

text \<open>C26: the first substitution of clean_text does what the spec's step 1 asks: its result contains no http followed by a non-whitespace character, although removing a URL joins the text around it.\<close>

theorem url_step_complete:
  "\<not> py_isspace c \<Longrightarrow> \<not> sublist (''http'' @ [c]) (re_sub pat_url [] s)"
  unfolding pat_url_def by (rule re_sub_lit_plus_complete [OF _ http_not_space])

text \<open>The later steps can create a URL that step 1 did not see: removing the hashtag and then the dot of ht#a.tpx joins http followed by a letter, and this survives in the cleaned text, contrary to the spec's invariant that cleaned text contains no URL.\<close>

lemma clean_text_url_reappears: "clean_text ''ht#a.tpx'' = ''httpx''"
  by (simp add: clean_text_def clean_patterns match_lit_plus_def match_class_def
      py_strip_def py_lstrip_def py_rstrip_def py_char_simps)

end
