(* ===== verification/Predict.thy ===== *)
theory Predict
  imports Cleaner
begin

text \<open>
  \<open>predict_personality\<close> (src/app1.py lines 25--28, src/app2.py lines 38--41) and the way
  the scripts show its result. The two pickled artifacts are the interface the function
  is written against: \<open>vectorizer.transform\<close> maps a batch of texts to a feature
  matrix and \<open>model.predict\<close> maps a matrix to one label per row. They are opaque here
  (a record of two functions over an unspecified matrix type \<open>'x\<close>); the theory
  \<open>Model\<close> gives a concrete bag-of-words linear instance.
\<close>

record 'x artifacts =
  vectorizer_transform :: "pystr list \<Rightarrow> 'x"
  model_predict :: "'x \<Rightarrow> pystr list"

definition predict_personality :: "'x artifacts \<Rightarrow> pystr \<Rightarrow> pystr py_result" where
  "predict_personality art text =
     (let cleaned = clean_text text;
          vector = vectorizer_transform art [cleaned]
      in py_index (model_predict art vector) 0)"

text \<open>
  The scripts compare the returned label with \<open>"happy"\<close>: equal shows the HAPPY banner
  (\<open>st.success\<close>), anything else the SAD one (\<open>st.error\<close>).
\<close>

datatype verdict = Happy | Sad

definition show_label :: "pystr \<Rightarrow> verdict" where
  "show_label result = (if result = ''happy'' then Happy else Sad)"

text \<open>
  The contract the artifacts must meet for the scripts to behave as the spec says: a
  one-text batch is classified as exactly one of the two labels.
\<close>

definition label_contract :: "'x artifacts \<Rightarrow> bool" where
  "label_contract art =
     (\<forall>d. model_predict art (vectorizer_transform art [d]) \<in> {[''happy''], [''sad'']})"

section \<open>Lemmas\<close>

lemma predict_personality_clean:
  "predict_personality art text = py_index (model_predict art (vectorizer_transform art [clean_text text])) 0"
  by (simp add: predict_personality_def)

lemma predict_personality_same_clean:
  "clean_text t = clean_text t' \<Longrightarrow> predict_personality art t = predict_personality art t'"
  by (simp add: predict_personality_clean)

lemma predict_personality_contract:
  "label_contract art \<Longrightarrow> predict_personality art text \<in> {Inr ''happy'', Inr ''sad''}"
proof -
  assume "label_contract art"
  then have "model_predict art (vectorizer_transform art [clean_text text]) \<in> {[''happy''], [''sad'']}"
    by (simp add: label_contract_def)
  then show ?thesis by (auto simp: predict_personality_clean)
qed

text \<open>C8: predict_personality raises exactly when the model returns no label for the cleaned text, and then the exception is IndexError from the [0].\<close>

theorem predict_personality_error:
  "predict_personality art text = Inl e \<longleftrightarrow>
     e = IndexError \<and> model_predict art (vectorizer_transform art [clean_text text]) = []"
  by (cases "model_predict art (vectorizer_transform art [clean_text text])")
    (auto simp: predict_personality_clean)

text \<open>With artifacts that classify every one-text batch as happy or sad, predict_personality returns happy or sad and raises nothing.\<close>

lemma predict_personality_label:
  "label_contract art \<Longrightarrow> predict_personality art text \<in> {Inr ''happy'', Inr ''sad''}"
  by (rule predict_personality_contract)

end
