(* ===== verification/Model.thy ===== *)
theory Model
  imports Predict
begin

text \<open>
  The pickled artifacts are not source code of the repository; the spec describes them as
  a pre-fit bag-of-words vectorizer and a pre-fit linear binary classifier. This theory
  models that description (scikit-learn's \<open>CountVectorizer\<close> with its default analyzer
  and a linear model's \<open>predict\<close>) and shows that it meets \<open>label_contract\<close>.
  Weights are integers: the floating-point rounding of the real model is not modelled.
\<close>

text \<open>
  The default analyzer lower-cases and takes the matches of \<open>(?u)\b\w\w+\b\<close>: the
  maximal runs of word characters that have at least two characters.
\<close>

function word_runs :: "pystr \<Rightarrow> pystr list" where
  "word_runs [] = []"
| "word_runs (c # cs) =
     (if py_isword c then (c # takeWhile py_isword cs) # word_runs (dropWhile py_isword cs)
      else word_runs cs)"
  by pat_completeness auto
termination
  by (relation "measure length") (auto simp: le_imp_less_Suc length_dropWhile_le)

definition sk_tokens :: "pystr \<Rightarrow> pystr list" where
  "sk_tokens d = filter (\<lambda>w. 2 \<le> length w) (word_runs (py_lower d))"

record bow_model =
  vocabulary :: "pystr list"
  coef :: "int list"
  intercept :: int
  classes :: "pystr \<times> pystr"

text \<open>\<open>transform\<close>: one row of token counts per text, one column per vocabulary word.\<close>

definition bow_vector :: "bow_model \<Rightarrow> pystr \<Rightarrow> nat list" where
  "bow_vector m d = map (count_list (sk_tokens d)) (vocabulary m)"

text \<open>\<open>predict\<close>: the second class where the decision function is positive.\<close>

definition decision :: "bow_model \<Rightarrow> nat list \<Rightarrow> int" where
  "decision m x = intercept m + sum_list (map2 (\<lambda>w n. w * int n) (coef m) x)"

definition linear_label :: "bow_model \<Rightarrow> nat list \<Rightarrow> pystr" where
  "linear_label m x = (if 0 < decision m x then snd (classes m) else fst (classes m))"

definition bow_artifacts :: "bow_model \<Rightarrow> nat list list artifacts" where
  "bow_artifacts m =
     \<lparr>vectorizer_transform = map (bow_vector m), model_predict = map (linear_label m)\<rparr>"

text \<open>
  The test double of the spec: text whose cleaned form contains the word \<open>happy\<close> is
  happy, all else sad.
\<close>

definition happy_double :: bow_model where
  "happy_double =
     \<lparr>vocabulary = [''happy''], coef = [1], intercept = 0, classes = (''sad'', ''happy'')\<rparr>"

section \<open>Lemmas\<close>

lemma predict_bow:
  "predict_personality (bow_artifacts m) text =
     Inr (linear_label m (bow_vector m (clean_text text)))"
  by (simp add: predict_personality_clean bow_artifacts_def)

lemma happy_double_contract: "label_contract (bow_artifacts happy_double)"
  by (simp add: label_contract_def bow_artifacts_def linear_label_def happy_double_def)

text \<open>A bag-of-words linear model whose two classes are happy and sad meets the label contract of predict_personality.\<close>

lemma bow_label_contract:
  "classes m \<in> {(''sad'', ''happy''), (''happy'', ''sad'')} \<Longrightarrow> label_contract (bow_artifacts m)"
  by (auto simp: label_contract_def bow_artifacts_def linear_label_def)

lemma bow_vector_mset:
  assumes "mset (sk_tokens d) = mset (sk_tokens d')"
  shows "bow_vector m d = bow_vector m d'"
proof -
  have "count_list (sk_tokens d) v = count_list (sk_tokens d') v" for v
    by (simp only: count_mset [symmetric] assms)
  then show ?thesis by (simp add: bow_vector_def)
qed

text \<open>C10: with a bag-of-words model, two posts whose cleaned texts have the same multiset of tokens get the same prediction: word order does not matter.\<close>

theorem predict_bow_word_order:
  "mset (sk_tokens (clean_text t)) = mset (sk_tokens (clean_text t')) \<Longrightarrow>
   predict_personality (bow_artifacts m) t = predict_personality (bow_artifacts m) t'"
  using bow_vector_mset [of "clean_text t" "clean_text t'" m] by (simp add: predict_bow)

lemma clean_happy_post: "clean_text ''I am SO happy!!'' = ''i am so happy''"
  by (simp add: clean_text_def clean_patterns match_lit_plus_def match_class_def
      py_strip_def py_lstrip_def py_rstrip_def py_char_simps)

lemma clean_nothing_post: "clean_text ''nothing here'' = ''nothing here''"
  by (simp add: clean_text_def clean_patterns match_lit_plus_def match_class_def
      py_strip_def py_lstrip_def py_rstrip_def py_char_simps)

lemma tokens_happy_post: "sk_tokens ''i am so happy'' = [''am'', ''so'', ''happy'']"
  by code_simp

lemma tokens_nothing_post: "sk_tokens ''nothing here'' = [''nothing'', ''here'']"
  by code_simp

text \<open>With the spec's test double, I am SO happy!! is predicted happy and nothing here is predicted sad.\<close>

lemma happy_double_examples:
  "predict_personality (bow_artifacts happy_double) ''I am SO happy!!'' = Inr ''happy'' \<and>
   predict_personality (bow_artifacts happy_double) ''nothing here'' = Inr ''sad''"
  by (simp add: predict_bow clean_happy_post clean_nothing_post bow_vector_def
      tokens_happy_post tokens_nothing_post happy_double_def linear_label_def decision_def)

end
