(* ===== verification/Extract.thy ===== *)
theory Extract
  imports Predict
begin

text \<open>
  The text sources of the file-upload branch (src/app1.py lines 31--43 and 74--101,
  src/app2.py lines 44--56 and 87--114). The parsing libraries are the boundary: a
  python-docx document is the list of its paragraphs' texts, a PyPDF2 page is the result
  of its \<open>extract_text()\<close> (which may raise, return \<open>None\<close> or return a string), and a
  pandas data frame is its list of named columns of cells. What the scripts do with those
  values is modelled here: the filters, the page loop, the per-line predictions and the
  \<open>Series.apply\<close> over the \<open>text\<close> column.
\<close>

text \<open>\<open>if line.strip()\<close>: a line counts when it is not blank.\<close>

definition is_nonblank :: "pystr \<Rightarrow> bool" where
  "is_nonblank line = (py_strip line \<noteq> [])"

definition extract_docx_text :: "pystr list \<Rightarrow> pystr list" where
  "extract_docx_text paragraphs = filter is_nonblank paragraphs"

type_synonym pdf_page = "pystr option py_result"

text \<open>The loop \<open>for page in reader.pages\<close> with its accumulator \<open>text\<close>.\<close>

fun pdf_collect :: "pystr list \<Rightarrow> pdf_page list \<Rightarrow> pystr list py_result" where
  "pdf_collect text [] = Inr text"
| "pdf_collect text (page # pages) =
     (case page of
        Inl e \<Rightarrow> Inl e
      | Inr None \<Rightarrow> pdf_collect text pages
      | Inr (Some page_text) \<Rightarrow>
          if page_text \<noteq> [] then pdf_collect (text @ py_splitlines page_text) pages
          else pdf_collect text pages)"

definition extract_pdf_text :: "pdf_page list \<Rightarrow> pystr list py_result" where
  "extract_pdf_text pages =
     (case pdf_collect [] pages of Inl e \<Rightarrow> Inl e | Inr text \<Rightarrow> Inr (filter is_nonblank text))"

text \<open>The lines of a \<open>.txt\<close> upload that get a prediction.\<close>

definition txt_lines :: "pystr \<Rightarrow> pystr list" where
  "txt_lines content = filter is_nonblank (py_splitlines content)"

text \<open>\<open>[{"Post": line, "Prediction": predict_personality(line)} for line in lines]\<close>.\<close>

definition predict_rows :: "'x artifacts \<Rightarrow> pystr list \<Rightarrow> (pystr \<times> pystr) list py_result" where
  "predict_rows art lines =
     py_map (\<lambda>line. case predict_personality art line of
                      Inl e \<Rightarrow> Inl e | Inr r \<Rightarrow> Inr (line, r)) lines"

subsection \<open>CSV\<close>

text \<open>
  A cell of a pandas column as the scripts see it: \<open>read_csv\<close> gives a \<open>str\<close> for text, an
  \<open>int\<close>, a \<open>float\<close> or a \<open>bool\<close> where the column parses as numbers or booleans, and the
  float NaN for an empty field. Only a \<open>str\<close> is accepted by \<open>re.sub\<close>; anything else
  raises \<open>TypeError\<close> in the first line of \<open>clean_text\<close>.
\<close>

datatype cell = CStr pystr | CInt int | CFloat | CBool bool | CNaN

record dataframe =
  columns :: "(pystr \<times> cell list) list"

fun is_str :: "cell \<Rightarrow> bool" where
  "is_str (CStr s) = True"
| "is_str v = False"

definition predict_cell :: "'x artifacts \<Rightarrow> cell \<Rightarrow> pystr py_result" where
  "predict_cell art v = (case v of CStr s \<Rightarrow> predict_personality art s | _ \<Rightarrow> Inl TypeError)"

text \<open>
  \<open>if 'text' in df.columns: df['Prediction'] = df['text'].apply(predict_personality)\<close>:
  \<open>None\<close> when there is no such column, otherwise the rows shown, or the exception.
\<close>

definition csv_predictions ::
  "'x artifacts \<Rightarrow> dataframe \<Rightarrow> (cell \<times> pystr) list py_result option" where
  "csv_predictions art df =
     (case map_of (columns df) ''text'' of
        None \<Rightarrow> None
      | Some cells \<Rightarrow>
          Some (case py_map (predict_cell art) cells of
                  Inl e \<Rightarrow> Inl e
                | Inr preds \<Rightarrow> Inr (zip cells preds)))"

section \<open>Lemmas\<close>

lemma extract_docx_text_nonblank: "list_all is_nonblank (extract_docx_text ps)"
  by (simp add: extract_docx_text_def list_all_iff)

text \<open>Each line or cell is paired with its own prediction, in order.\<close>

lemma predict_rows_exact:
  "(\<And>l. l \<in> set lines \<Longrightarrow> predict_personality art l = Inr (label l)) \<Longrightarrow>
   predict_rows art lines = Inr (map (\<lambda>l. (l, label l)) lines)"
  by (simp add: predict_rows_def py_map_total)

lemma csv_predictions_exact:
  assumes "map_of (columns df) ''text'' = Some (map CStr posts)"
    and "\<And>p. p \<in> set posts \<Longrightarrow> predict_personality art p = Inr (label p)"
  shows "csv_predictions art df = Some (Inr (map (\<lambda>p. (CStr p, label p)) posts))"
proof -
  have "py_map (predict_cell art) (map CStr posts) = Inr (map (\<lambda>v. case v of CStr p \<Rightarrow> label p | _ \<Rightarrow> []) (map CStr posts))"
    using assms(2) by (intro py_map_total) (auto simp: predict_cell_def)
  then show ?thesis
    using assms(1) by (simp add: csv_predictions_def zip_map_map zip_same_conv_map comp_def)
qed

text \<open>C24: when no page raises, the PDF loop yields the lines of the pages with text, page after page in document order, and pages without text contribute nothing.\<close>

theorem pdf_collect_ok:
  "(\<forall>p \<in> set pages. \<exists>t. p = Inr t) \<Longrightarrow>
   pdf_collect acc pages =
     Inr (acc @ concat (map (\<lambda>p. case p of Inr (Some t) \<Rightarrow> py_splitlines t | _ \<Rightarrow> []) pages))"
proof (induction acc pages rule: pdf_collect.induct)
  case (2 acc page pages)
  then obtain t where "page = Inr t" by auto
  with 2 show ?case by (cases t) auto
qed simp

lemma pdf_collect_error:
  "pdf_collect acc pages = Inl e \<Longrightarrow> Inl e \<in> set pages"
  by (induction acc pages rule: pdf_collect.induct) (auto split: sum.splits option.splits if_splits)

lemma extract_pdf_text_nonblank:
  "extract_pdf_text pages = Inr lines \<Longrightarrow> list_all is_nonblank lines"
  by (auto simp: extract_pdf_text_def list_all_iff split: sum.splits)

lemma txt_lines_nonblank: "list_all is_nonblank (txt_lines content)"
  by (simp add: txt_lines_def list_all_iff)

lemma predict_rows_contract:
  assumes "label_contract art"
  shows "\<exists>labels. predict_rows art lines = Inr (zip lines labels) \<and> length labels = length lines
     \<and> set labels \<subseteq> {''happy'', ''sad''}"
proof -
  define lab where "lab l = projr (predict_personality art l)" for l
  have lab: "predict_personality art l = Inr (lab l) \<and> lab l \<in> {''happy'', ''sad''}" for l
    using predict_personality_contract [OF assms, of l] by (auto simp: lab_def)
  then have "predict_rows art lines = Inr (map (\<lambda>l. (l, lab l)) lines)"
    by (simp add: predict_rows_def py_map_total)
  moreover have "map (\<lambda>l. (l, lab l)) lines = zip lines (map lab lines)"
    by (induction lines) simp_all
  ultimately show ?thesis
    using lab by (intro exI [of _ "map lab lines"]) auto
qed

lemma predict_cell_contract:
  "label_contract art \<Longrightarrow> (\<exists>r. predict_cell art v = Inr r \<and> r \<in> {''happy'', ''sad''}) \<or>
     (\<not> is_str v \<and> predict_cell art v = Inl TypeError)"
  using predict_personality_contract [of art]
  by (cases v) (auto simp: predict_cell_def)

lemma csv_predictions_str:
  assumes "label_contract art" and "map_of (columns df) ''text'' = Some (map CStr posts)"
  shows "\<exists>labels. csv_predictions art df = Some (Inr (zip (map CStr posts) labels))
    \<and> length labels = length posts \<and> set labels \<subseteq> {''happy'', ''sad''}"
proof -
  define lab where "lab v = projr (predict_cell art v)" for v
  have lab: "predict_cell art (CStr p) = Inr (lab (CStr p)) \<and> lab (CStr p) \<in> {''happy'', ''sad''}" for p
    using predict_personality_contract [OF assms(1), of p] by (auto simp: lab_def predict_cell_def)
  then have "py_map (predict_cell art) (map CStr posts) = Inr (map lab (map CStr posts))"
    by (intro py_map_total) auto
  then show ?thesis
    using assms(2) lab by (intro exI [of _ "map lab (map CStr posts)"]) (auto simp: csv_predictions_def)
qed

lemma csv_predictions_non_str:
  assumes "label_contract art" and "map_of (columns df) ''text'' = Some cells"
    and "\<not> list_all is_str cells"
  shows "csv_predictions art df = Some (Inl TypeError)"
proof -
  have "py_map (predict_cell art) cells = Inl TypeError"
  proof (rule py_map_single_error)
    show "(\<exists>y. predict_cell art x = Inr y) \<or> predict_cell art x = Inl TypeError" for x
      using predict_cell_contract [OF assms(1), of x] by blast
    from assms(3) obtain x where "x \<in> set cells" "\<not> is_str x" by (auto simp: list_all_iff)
    moreover from \<open>\<not> is_str x\<close> have "predict_cell art x = Inl TypeError"
      by (cases x) (simp_all add: predict_cell_def)
    ultimately show "\<exists>x \<in> set cells. predict_cell art x = Inl TypeError" by blast
  qed
  with assms(2) show ?thesis by (simp add: csv_predictions_def)
qed

end
