(* ===== verification/App.thy ===== *)
theory App
  imports Extract
begin

text \<open>
  The three Streamlit scripts. Every interaction reruns a script from the top; a run is
  modelled as the list of elements it renders and the exception that stopped it, if any.
  Widgets are inputs of the run (the text typed, whether a button was clicked in this
  run, the uploaded file or image); the parsing and OCR libraries are records of
  functions, the boundary of the model. Static markdown is \<open>Header\<close> and \<open>Footer\<close>; the
  messages are named by what they say (their wording differs between the scripts).
\<close>

datatype ui =
    Header
  | Footer
  | Banner verdict
  | Warn_empty_post
  | Warn_no_image_text
  | Predictions_done
  | Posts_table "(pystr \<times> pystr) list"
  | Csv_table "(cell \<times> pystr) list"
  | Csv_no_text_column
  | Unsupported_format
  | File_error py_error
  | Image_shown
  | Extracted_text pystr
  | Image_error py_error

record 'f upload =
  file_name :: pystr
  file_data :: 'f

record 'f file_libs =
  read_csv :: "'f \<Rightarrow> dataframe py_result"
  decode_utf8 :: "'f \<Rightarrow> pystr py_result"
  docx_paragraphs :: "'f \<Rightarrow> pystr list py_result"
  pdf_pages :: "'f \<Rightarrow> pdf_page list py_result"

record ('i, 'm) image_libs =
  image_open :: "'i \<Rightarrow> 'm py_result"
  image_to_string :: "'m \<Rightarrow> pystr py_result"

subsection \<open>File upload\<close>

text \<open>\<open>uploaded_file.name.split('.')[-1].lower()\<close>\<close>

definition file_ext :: "pystr \<Rightarrow> pystr py_result" where
  "file_ext name =
     (case py_index (py_split_char (CHR ''.'') name) (-1) of
        Inl e \<Rightarrow> Inl e
      | Inr part \<Rightarrow> Inr (py_lower part))"

definition rows_table :: "(pystr \<times> pystr) list py_result \<Rightarrow> ui list py_result" where
  "rows_table r = (case r of Inl e \<Rightarrow> Inl e | Inr rows \<Rightarrow> Inr [Predictions_done, Posts_table rows])"

text \<open>
  The body of the \<open>try\<close>; \<open>otherwise\<close> is what the final \<open>else\<close> renders (src/app1.py has
  one, src/app2.py has none).
\<close>

definition file_branch ::
  "ui list \<Rightarrow> 'x artifacts \<Rightarrow> 'f file_libs \<Rightarrow> 'f upload \<Rightarrow> ui list py_result" where
  "file_branch otherwise art libs up =
     (case file_ext (file_name up) of
        Inl e \<Rightarrow> Inl e
      | Inr ext \<Rightarrow>
          if ext = ''csv'' then
            (case read_csv libs (file_data up) of
               Inl e \<Rightarrow> Inl e
             | Inr df \<Rightarrow>
                 (case csv_predictions art df of
                    None \<Rightarrow> Inr [Csv_no_text_column]
                  | Some (Inl e) \<Rightarrow> Inl e
                  | Some (Inr rows) \<Rightarrow> Inr [Predictions_done, Csv_table rows]))
          else if ext = ''txt'' then
            (case decode_utf8 libs (file_data up) of
               Inl e \<Rightarrow> Inl e
             | Inr content \<Rightarrow> rows_table (predict_rows art (txt_lines content)))
          else if ext = ''docx'' then
            (case docx_paragraphs libs (file_data up) of
               Inl e \<Rightarrow> Inl e
             | Inr paras \<Rightarrow> rows_table (predict_rows art (extract_docx_text paras)))
          else if ext = ''pdf'' then
            (case pdf_pages libs (file_data up) of
               Inl e \<Rightarrow> Inl e
             | Inr pages \<Rightarrow>
                 (case extract_pdf_text pages of
                    Inl e \<Rightarrow> Inl e
                  | Inr lines \<Rightarrow> rows_table (predict_rows art lines)))
          else Inr otherwise)"

text \<open>\<open>except Exception as e: st.error(...)\<close>\<close>

definition handle_file ::
  "ui list \<Rightarrow> 'x artifacts \<Rightarrow> 'f file_libs \<Rightarrow> 'f upload \<Rightarrow> ui list" where
  "handle_file otherwise art libs up =
     (case file_branch otherwise art libs up of Inl e \<Rightarrow> [File_error e] | Inr out \<Rightarrow> out)"

definition handle_file_app1 :: "'x artifacts \<Rightarrow> 'f file_libs \<Rightarrow> 'f upload \<Rightarrow> ui list" where
  "handle_file_app1 = handle_file [Unsupported_format]"

definition handle_file_app2 :: "'x artifacts \<Rightarrow> 'f file_libs \<Rightarrow> 'f upload \<Rightarrow> ui list" where
  "handle_file_app2 = handle_file []"

subsection \<open>Single post\<close>

text \<open>
  src/app1.py lines 56--64 and src/app2.py lines 69--77: outside any \<open>try\<close>, so an
  exception of \<open>predict_personality\<close> stops the run.
\<close>

definition handle_text_app1 :: "'x artifacts \<Rightarrow> bool \<Rightarrow> pystr \<Rightarrow> ui list py_result" where
  "handle_text_app1 art clicked user_input =
     (if \<not> clicked then Inr []
      else if py_strip user_input = [] then Inr [Warn_empty_post]
      else (case predict_personality art user_input of
              Inl e \<Rightarrow> Inl e
            | Inr result \<Rightarrow> Inr [Banner (show_label result)]))"

definition handle_text_app2 :: "'x artifacts \<Rightarrow> bool \<Rightarrow> pystr \<Rightarrow> ui list py_result" where
  "handle_text_app2 art clicked user_input =
     (if clicked then
        (if py_strip user_input \<noteq> [] then
           (case predict_personality art user_input of
              Inl e \<Rightarrow> Inl e
            | Inr result \<Rightarrow> Inr [Banner (show_label result)])
         else Inr [Warn_empty_post])
      else Inr [])"

subsection \<open>Image\<close>

text \<open>
  src/app.py lines 12--34 and src/app2.py lines 125--143, inside one \<open>try\<close>. The
  predictor is a parameter: src/app2.py calls its \<open>predict_personality\<close>; src/app.py
  never defines or imports one, so the name lookup raises \<open>NameError\<close>.
\<close>

definition handle_image ::
  "(pystr \<Rightarrow> pystr py_result) \<Rightarrow> ('i, 'm) image_libs \<Rightarrow> 'i \<Rightarrow> bool \<Rightarrow> ui list" where
  "handle_image predict libs img clicked =
     (case image_open libs img of
        Inl e \<Rightarrow> [Image_error e]
      | Inr im \<Rightarrow> Image_shown #
          (case image_to_string libs im of
             Inl e \<Rightarrow> [Image_error e]
           | Inr extracted \<Rightarrow> Extracted_text extracted #
               (if \<not> clicked then []
                else if py_strip extracted \<noteq> [] then
                  (case predict extracted of
                     Inl e \<Rightarrow> [Image_error e]
                   | Inr result \<Rightarrow> [Banner (show_label result)])
                else [Warn_no_image_text])))"

definition undefined_predict :: "pystr \<Rightarrow> pystr py_result" where
  "undefined_predict text = Inl (NameError ''predict_personality'')"

definition handle_image_app :: "('i, 'm) image_libs \<Rightarrow> 'i \<Rightarrow> bool \<Rightarrow> ui list" where
  "handle_image_app = handle_image undefined_predict"

definition handle_image_app2 :: "'x artifacts \<Rightarrow> ('i, 'm) image_libs \<Rightarrow> 'i \<Rightarrow> bool \<Rightarrow> ui list" where
  "handle_image_app2 art = handle_image (predict_personality art)"

subsection \<open>Whole runs\<close>

text \<open>The widget state a run reads.\<close>

record ('f, 'i) inputs =
  text_clicked :: bool
  user_text :: pystr
  uploaded_file :: "'f upload option"
  uploaded_image :: "'i option"
  image_clicked :: bool

type_synonym run = "ui list \<times> py_error option"

text \<open>
  \<open>loaded\<close> is what the two \<open>pickle.load\<close> calls at the top give: the artifacts, or the
  first exception (a missing or corrupt file), which no \<open>try\<close> catches.
\<close>

definition run_app1 :: "'x artifacts py_result \<Rightarrow> 'f file_libs \<Rightarrow> ('f, 'i) inputs \<Rightarrow> run" where
  "run_app1 loaded libs inp =
     (case loaded of
        Inl e \<Rightarrow> ([], Some e)
      | Inr art \<Rightarrow>
          (case handle_text_app1 art (text_clicked inp) (user_text inp) of
             Inl e \<Rightarrow> ([Header], Some e)
           | Inr out \<Rightarrow>
               (Header # out
                @ (case uploaded_file inp of None \<Rightarrow> [] | Some up \<Rightarrow> handle_file_app1 art libs up)
                @ [Footer], None)))"

definition run_app2 ::
  "'x artifacts py_result \<Rightarrow> 'f file_libs \<Rightarrow> ('i, 'm) image_libs \<Rightarrow> ('f, 'i) inputs \<Rightarrow> run" where
  "run_app2 loaded libs ilibs inp =
     (case loaded of
        Inl e \<Rightarrow> ([], Some e)
      | Inr art \<Rightarrow>
          (case handle_text_app2 art (text_clicked inp) (user_text inp) of
             Inl e \<Rightarrow> ([Header], Some e)
           | Inr out \<Rightarrow>
               (Header # out
                @ (case uploaded_file inp of None \<Rightarrow> [] | Some up \<Rightarrow> handle_file_app2 art libs up)
                @ (case uploaded_image inp of
                     None \<Rightarrow> [] | Some img \<Rightarrow> handle_image_app2 art ilibs img (image_clicked inp))
                @ [Footer], None)))"

definition run_app :: "('i, 'm) image_libs \<Rightarrow> ('f, 'i) inputs \<Rightarrow> run" where
  "run_app ilibs inp =
     (Header # (case uploaded_image inp of
                  None \<Rightarrow> [] | Some img \<Rightarrow> handle_image_app ilibs img (image_clicked inp)), None)"

section \<open>Lemmas\<close>

subsection \<open>Extension\<close>

lemma file_ext_eq:
  "file_ext name = Inr (py_lower (rev (takeWhile (\<lambda>c. c \<noteq> CHR ''.'') (rev name))))"
  by (simp add: file_ext_def last_py_split_char)

text \<open>The file type is the lower-cased part after the last dot, or the whole name when there is no dot.\<close>

lemma file_ext_examples:
  "file_ext ''posts.backup.CSV'' = Inr ''csv'' \<and> file_ext ''csv'' = Inr ''csv''
   \<and> file_ext ''notes.txt.pdf'' = Inr ''pdf''"
  by (simp add: file_ext_eq py_char_simps)

subsection \<open>Branches of the upload handler\<close>

lemma handle_file_branch:
  "handle_file otherwise art libs up =
     (case file_branch otherwise art libs up of Inl e \<Rightarrow> [File_error e] | Inr out \<Rightarrow> out)"
  by (simp add: handle_file_def)

lemma rows_table_contract:
  "label_contract art \<Longrightarrow>
   \<exists>labels. rows_table (predict_rows art lines) = Inr [Predictions_done, Posts_table (zip lines labels)]
     \<and> length labels = length lines \<and> set labels \<subseteq> {''happy'', ''sad''}"
  using predict_rows_contract [of art lines] by (auto simp: rows_table_def)

text \<open>C11: a CSV upload whose text column holds the strings posts renders, after the success message, the table that pairs each row's cell with the prediction for that row's own post, in row order.\<close>

theorem csv_rows:
  assumes "file_ext (file_name up) = Inr ''csv''"
    and "read_csv libs (file_data up) = Inr df"
    and "map_of (columns df) ''text'' = Some (map CStr posts)"
    and "\<And>p. p \<in> set posts \<Longrightarrow> predict_personality art p = Inr (label p)"
  shows "handle_file_app1 art libs up =
      [Predictions_done, Csv_table (map (\<lambda>p. (CStr p, label p)) posts)]"
  using csv_predictions_exact [OF assms(3,4)] assms(1,2)
  by (simp add: handle_file_app1_def handle_file_def file_branch_def)

text \<open>C12: a CSV upload without a column named text is reported as such and no prediction is shown.\<close>

theorem csv_no_text_column:
  assumes "file_ext (file_name up) = Inr ''csv''" and "read_csv libs (file_data up) = Inr df"
    and "map_of (columns df) ''text'' = None"
  shows "handle_file_app1 art libs up = [Csv_no_text_column]"
  using assms by (simp add: handle_file_app1_def handle_file_def file_branch_def csv_predictions_def)

text \<open>C13: one cell of the text column that is not a string (an empty field read as NaN, a number) makes the whole CSV upload fail with TypeError: no row is predicted.\<close>

theorem csv_non_str_cell:
  assumes "label_contract art" and "file_ext (file_name up) = Inr ''csv''"
    and "read_csv libs (file_data up) = Inr df"
    and "map_of (columns df) ''text'' = Some cells" and "\<not> list_all is_str cells"
  shows "handle_file_app1 art libs up = [File_error TypeError]"
  using csv_predictions_non_str [OF assms(1,4,5)] assms(2,3)
  by (simp add: handle_file_app1_def handle_file_def file_branch_def)

text \<open>C14: a text upload renders, after the success message, one row for each line of the decoded file that is not blank, in file order, each paired with the prediction for that line; blank lines get no row.\<close>

theorem txt_rows:
  assumes "file_ext (file_name up) = Inr ''txt''"
    and "decode_utf8 libs (file_data up) = Inr content"
    and "\<And>l. predict_personality art l = Inr (label l)"
  shows "handle_file_app1 art libs up =
      [Predictions_done,
       Posts_table (map (\<lambda>l. (l, label l)) (filter (\<lambda>l. py_strip l \<noteq> []) (py_splitlines content)))]"
proof -
  have "predict_rows art (txt_lines content) = Inr (map (\<lambda>l. (l, label l)) (txt_lines content))"
    using assms(3) by (rule predict_rows_exact)
  moreover have "txt_lines content = filter (\<lambda>l. py_strip l \<noteq> []) (py_splitlines content)"
    by (simp add: txt_lines_def is_nonblank_def [abs_def])
  ultimately show ?thesis
    using assms(1,2) by (simp add: handle_file_app1_def handle_file_def file_branch_def rows_table_def)
qed

lemma txt_lines_example:
  "txt_lines (''hello'' @ [CHR 0x0A, CHR 0x0A] @ ''world'' @ [CHR 0x0A]) = [''hello'', ''world'']"
  by (simp add: txt_lines_def is_nonblank_def py_splitlines.simps skip_linebreak_def
      py_strip_def py_lstrip_def py_rstrip_def py_char_simps)

lemma pdf_collect_blank_pages:
  "list_all (\<lambda>p. p = Inr None \<or> p = Inr (Some [])) pages \<Longrightarrow> pdf_collect acc pages = Inr acc"
  by (induction acc pages rule: pdf_collect.induct) auto

text \<open>A PDF whose pages have no extractable text gives an empty table, not an error.\<close>

lemma pdf_blank_pages:
  assumes "file_ext (file_name up) = Inr ''pdf''" and "pdf_pages libs (file_data up) = Inr pages"
    and "list_all (\<lambda>p. p = Inr None \<or> p = Inr (Some [])) pages"
  shows "handle_file_app1 art libs up = [Predictions_done, Posts_table []]"
  using assms pdf_collect_blank_pages [OF assms(3), of "[]"]
  by (simp add: handle_file_app1_def handle_file_def file_branch_def extract_pdf_text_def
      rows_table_def predict_rows_def)

text \<open>An upload with another extension is reported as unsupported by src/app1.py and silently ignored by src/app2.py.\<close>

lemma unsupported_extension:
  assumes "file_ext (file_name up) = Inr ext" and "ext \<notin> {''csv'', ''txt'', ''docx'', ''pdf''}"
  shows "handle_file_app1 art libs up = [Unsupported_format] \<and> handle_file_app2 art libs up = []"
  using assms
  by (simp add: handle_file_app1_def handle_file_app2_def handle_file_def file_branch_def)

subsection \<open>Single post\<close>

text \<open>C17: the single-post handlers of src/app1.py and src/app2.py render the same elements.\<close>

theorem handle_text_variants: "handle_text_app1 art clicked t = handle_text_app2 art clicked t"
  by (simp add: handle_text_app1_def handle_text_app2_def)

text \<open>C18: a click on the predict button warns about a blank post and otherwise shows exactly one banner, HAPPY or SAD.\<close>

theorem handle_text_contract:
  "label_contract art \<Longrightarrow>
   handle_text_app1 art True t \<in>
     (if py_strip t = [] then {Inr [Warn_empty_post]} else {Inr [Banner Happy], Inr [Banner Sad]})"
  using predict_personality_contract [of art t]
  by (auto simp: handle_text_app1_def show_label_def)

subsection \<open>Image\<close>

text \<open>C19: src/app.py never shows a prediction: the name predict_personality is undefined there, so every attempt ends in the caught NameError.\<close>

theorem app_image_never_predicts: "Banner v \<notin> set (fst (run_app ilibs inp))"
  by (auto simp: run_app_def handle_image_app_def handle_image_def undefined_predict_def
      split: option.splits sum.splits)

text \<open>C20: in src/app2.py the text read from an image is classified as one post, not split into lines.\<close>

theorem app2_image_whole_text:
  assumes "image_open ilibs img = Inr im" and "image_to_string ilibs im = Inr t"
    and "py_strip t \<noteq> []" and "predict_personality art t = Inr r"
  shows "handle_image_app2 art ilibs img True = [Image_shown, Extracted_text t, Banner (show_label r)]"
  using assms by (simp add: handle_image_app2_def handle_image_def)

subsection \<open>Whole runs\<close>

text \<open>A failure to load the pickled artifacts stops src/app1.py before it renders anything.\<close>

lemma run_app1_startup_failure: "run_app1 (Inl e) libs inp = ([], Some e)"
  by (simp add: run_app1_def)

lemma handle_text_app1_contract_Inr:
  "label_contract art \<Longrightarrow> \<exists>out. handle_text_app1 art clicked t = Inr out"
  using predict_personality_contract [of art t] by (auto simp: handle_text_app1_def)

lemma handle_text_app2_contract_Inr:
  "label_contract art \<Longrightarrow> \<exists>out. handle_text_app2 art clicked t = Inr out"
  using predict_personality_contract [of art t] by (auto simp: handle_text_app2_def)

lemma run_app1_no_crash_aux:
  assumes "label_contract art"
  shows "snd (run_app1 (Inr art) libs inp) = None \<and> hd (fst (run_app1 (Inr art) libs inp)) = Header
    \<and> last (fst (run_app1 (Inr art) libs inp)) = Footer"
proof -
  obtain out where "handle_text_app1 art (text_clicked inp) (user_text inp) = Inr out"
    using handle_text_app1_contract_Inr [OF assms] by blast
  then show ?thesis by (simp add: run_app1_def)
qed


text \<open>C21: once the artifacts are loaded and meet the contract, a run of src/app1.py never stops on an exception and always renders from the header to the footer.\<close>

theorem run_app1_no_crash:
  assumes "label_contract art"
  shows "snd (run_app1 (Inr art) libs inp) = None \<and> hd (fst (run_app1 (Inr art) libs inp)) = Header
    \<and> last (fst (run_app1 (Inr art) libs inp)) = Footer"
  using assms by (rule run_app1_no_crash_aux)

lemma run_app2_no_crash_aux:
  assumes "label_contract art"
  shows "snd (run_app2 (Inr art) libs ilibs inp) = None
    \<and> hd (fst (run_app2 (Inr art) libs ilibs inp)) = Header
    \<and> last (fst (run_app2 (Inr art) libs ilibs inp)) = Footer"
proof -
  obtain out where "handle_text_app2 art (text_clicked inp) (user_text inp) = Inr out"
    using handle_text_app2_contract_Inr [OF assms] by blast
  then show ?thesis by (simp add: run_app2_def)
qed

text \<open>C23: once the artifacts are loaded and meet the contract, a run of src/app2.py never stops on an exception and renders its footer.\<close>

theorem run_app2_no_crash:
  assumes "label_contract art"
  shows "snd (run_app2 (Inr art) libs ilibs inp) = None
    \<and> last (fst (run_app2 (Inr art) libs ilibs inp)) = Footer"
  using run_app2_no_crash_aux [OF assms, of libs ilibs inp] by blast

end
