(* ===== verification/Session.thy ===== *)
theory Session
  imports App
begin

text \<open>
  Streamlit's execution model for src/app1.py: a session keeps the widget values (the text
  area, the file uploader) between interactions; each interaction changes one of them or
  clicks the button and then reruns the whole script. \<open>st.button\<close> returns \<open>True\<close> only in
  the rerun its click caused. The pickled artifacts are loaded again at the top of every
  rerun; \<open>loaded\<close> is that (deterministic) result.
\<close>

record 'f session =
  session_text :: pystr
  session_file :: "'f upload option"

datatype 'f event =
    Edit_text pystr
  | Set_file "'f upload option"
  | Click_predict

definition initial_session :: "'f session" where
  "initial_session = \<lparr>session_text = [], session_file = None\<rparr>"

definition apply_event :: "'f session \<Rightarrow> 'f event \<Rightarrow> 'f session" where
  "apply_event s e =
     (case e of
        Edit_text t \<Rightarrow> s\<lparr>session_text := t\<rparr>
      | Set_file f \<Rightarrow> s\<lparr>session_file := f\<rparr>
      | Click_predict \<Rightarrow> s)"

text \<open>The widget values the rerun after event \<open>e\<close> reads.\<close>

definition rerun_inputs :: "'f session \<Rightarrow> 'f event \<Rightarrow> ('f, unit) inputs" where
  "rerun_inputs s e =
     \<lparr>text_clicked = (e = Click_predict), user_text = session_text s,
      uploaded_file = session_file s, uploaded_image = None, image_clicked = False\<rparr>"

text \<open>One interaction: update the widgets, rerun, return the new session and the run.\<close>

definition interact_app1 ::
  "'x artifacts py_result \<Rightarrow> 'f file_libs \<Rightarrow> 'f session \<Rightarrow> 'f event \<Rightarrow> 'f session \<times> run" where
  "interact_app1 loaded libs s e =
     (let s' = apply_event s e in (s', run_app1 loaded libs (rerun_inputs s' e)))"

fun session_runs ::
  "'x artifacts py_result \<Rightarrow> 'f file_libs \<Rightarrow> 'f session \<Rightarrow> 'f event list \<Rightarrow> run list" where
  "session_runs loaded libs s [] = []"
| "session_runs loaded libs s (e # es) =
     snd (interact_app1 loaded libs s e)
     # session_runs loaded libs (fst (interact_app1 loaded libs s e)) es"

text \<open>The session reached after a sequence of events.\<close>

fun session_after :: "'f session \<Rightarrow> 'f event list \<Rightarrow> 'f session" where
  "session_after s [] = s"
| "session_after s (e # es) = session_after (apply_event s e) es"

section \<open>Lemmas\<close>

lemma length_session_runs [simp]: "length (session_runs loaded libs s es) = length es"
  by (induction es arbitrary: s) (simp_all add: interact_app1_def Let_def)

lemma session_runs_nth:
  "k < length es \<Longrightarrow>
   session_runs loaded libs s es ! k =
     run_app1 loaded libs (rerun_inputs (session_after s (take (Suc k) es)) (es ! k))"
proof (induction es arbitrary: s k)
  case (Cons e es)
  then show ?case
    by (cases k) (simp_all add: interact_app1_def Let_def)
qed simp

lemma run_app1_banner:
  assumes "label_contract art"
  shows "(\<exists>v. Banner v \<in> set (fst (run_app1 (Inr art) libs inp)))
     \<longleftrightarrow> text_clicked inp \<and> py_strip (user_text inp) \<noteq> []"
proof -
  have nb: "Banner v \<notin> set (handle_file_app1 art libs up)" for v up
    by (auto simp: handle_file_app1_def handle_file_def file_branch_def rows_table_def
        split: sum.splits option.splits if_splits)
  obtain r where r: "predict_personality art (user_text inp) = Inr r"
    using predict_personality_contract [OF assms, of "user_text inp"] by blast
  show ?thesis
    using nb r by (auto simp: run_app1_def handle_text_app1_def split: option.splits)
qed

text \<open>C25: Across a session of reruns of src/app1.py, the k-th rerun shows a prediction
  banner exactly when the k-th interaction is the click on the button and the post held by
  the text area at that moment is not blank; edits and uploads never show one.\<close>

theorem banner_only_on_click:
  assumes "label_contract art" and "k < length es"
  shows "(\<exists>v. Banner v \<in> set (fst (session_runs (Inr art) libs s es ! k)))
     \<longleftrightarrow> es ! k = Click_predict \<and> py_strip (session_text (session_after s (take (Suc k) es))) \<noteq> []"
  using run_app1_banner [OF assms(1), of libs "rerun_inputs (session_after s (take (Suc k) es)) (es ! k)"]
  by (simp add: session_runs_nth [OF assms(2)] rerun_inputs_def)

text \<open>with contract-respecting artifacts, every rerun of a session of src/app1.py,
  whatever the interactions, ends without an exception and renders up to the footer.\<close>

lemma session_never_crashes:
  assumes "label_contract art" and "r \<in> set (session_runs (Inr art) libs s es)"
  shows "snd r = None \<and> last (fst r) = Footer"
proof -
  obtain k where "k < length es" and "r = session_runs (Inr art) libs s es ! k"
    using assms(2) by (metis in_set_conv_nth length_session_runs)
  then show ?thesis
    using run_app1_no_crash_aux [OF assms(1), of libs
        "rerun_inputs (session_after s (take (Suc k) es)) (es ! k)"]
    by (simp add: session_runs_nth)
qed

end
