(* ===== verification/Upload_Filter.thy ===== *)
theory Upload_Filter
  imports App
begin

text \<open>
  The \<open>type=\<close> argument of \<open>st.file_uploader\<close> (src/app1.py line 70, src/app2.py lines 83
  and 123). Streamlit prefixes each allowed type with a dot, lower-cases it, and accepts a
  file only if its lower-cased name ends with one of them (\<open>str.endswith\<close>).
\<close>

definition ends_with :: "pystr \<Rightarrow> pystr \<Rightarrow> bool" where
  "ends_with s x = (length x \<le> length s \<and> drop (length s - length x) s = x)"

definition uploader_accepts :: "pystr list \<Rightarrow> pystr \<Rightarrow> bool" where
  "uploader_accepts types name =
     list_ex (\<lambda>t. ends_with (py_lower name) (py_lower (CHR ''.'' # t))) types"

definition doc_types :: "pystr list" where
  "doc_types = [''txt'', ''csv'', ''docx'', ''pdf'']"

section \<open>Lemmas\<close>

lemma py_lower_char_dot_iff: "py_lower_char c = CHR ''.'' \<longleftrightarrow> c = CHR ''.''"
proof (cases "let n = (of_char c :: nat) in (65 \<le> n \<and> n \<le> 90) \<or> (192 \<le> n \<and> n \<le> 222 \<and> n \<noteq> 215)")
  case True
  then have "of_char (py_lower_char c) = (of_char c + 32 :: nat)"
    by (auto simp: py_lower_char_def Let_def)
  moreover have "of_char c \<noteq> (46 :: nat)" and "of_char c + 32 \<noteq> (46 :: nat)"
    using True by (auto simp: Let_def)
  moreover have d: "of_char (CHR ''.'') = (46 :: nat)" by simp
  ultimately have "py_lower_char c \<noteq> CHR ''.''" and "c \<noteq> CHR ''.''" by metis+
  then show ?thesis by simp
next
  case False
  then show ?thesis by (auto simp: py_lower_char_def Let_def)
qed

lemma py_lower_char_dot [simp]: "py_lower_char (CHR ''.'') = CHR ''.''"
  by (simp add: py_lower_char_dot_iff)

lemma ends_with_append: "ends_with s x \<Longrightarrow> s = take (length s - length x) s @ x"
  by (metis append_take_drop_id ends_with_def)

lemma py_lower_last_part:
  "py_lower (rev (takeWhile (\<lambda>c. c \<noteq> CHR ''.'') (rev name)))
   = rev (takeWhile (\<lambda>c. c \<noteq> CHR ''.'') (rev (py_lower name)))"
proof -
  have "(\<lambda>c. c \<noteq> CHR ''.'') \<circ> py_lower_char = (\<lambda>c. c \<noteq> CHR ''.'')"
    by (simp add: fun_eq_iff py_lower_char_dot_iff)
  then show ?thesis by (simp add: py_lower_def rev_map takeWhile_map)
qed

text \<open>A name that ends with \<open>.t\<close>, for a \<open>t\<close> without a dot, has file type \<open>t\<close>.\<close>

lemma file_ext_ends_with:
  assumes "ends_with (py_lower name) (CHR ''.'' # t)" and "CHR ''.'' \<notin> set t"
  shows "file_ext name = Inr t"
proof -
  obtain u where u: "py_lower name = u @ CHR ''.'' # t"
    using ends_with_append [OF assms(1)] by blast
  have "takeWhile (\<lambda>c. c \<noteq> CHR ''.'') (rev t @ CHR ''.'' # rev u) = rev t"
    using assms(2) by (subst takeWhile_append2) auto
  then show ?thesis
    by (simp add: file_ext_eq py_lower_last_part u)
qed

lemma file_ext_accepted:
  assumes "uploader_accepts types name"
    and "list_all (\<lambda>t. CHR ''.'' \<notin> set t \<and> py_lower t = t) types"
  shows "\<exists>t \<in> set types. file_ext name = Inr t"
proof -
  obtain t where t: "t \<in> set types" and e: "ends_with (py_lower name) (py_lower (CHR ''.'' # t))"
    using assms(1) by (auto simp: uploader_accepts_def list_ex_iff)
  have "CHR ''.'' \<notin> set t" and "py_lower t = t" using assms(2) t by (auto simp: list_all_iff)
  then have "file_ext name = Inr t"
    using e by (intro file_ext_ends_with) (simp_all add: py_lower_def py_lower_char_dot_iff)
  with t show ?thesis by blast
qed

lemma doc_types_plain: "list_all (\<lambda>t. CHR ''.'' \<notin> set t \<and> py_lower t = t) doc_types"
  by (simp add: doc_types_def py_char_simps)

lemma file_branch_doc_type:
  "file_ext (file_name up) = Inr t \<Longrightarrow> t \<in> set doc_types \<Longrightarrow>
   file_branch otherwise art libs up = file_branch otherwise' art libs up"
  by (auto simp: file_branch_def doc_types_def)

lemma unsupported_not_in_branch_app2:
  "file_branch [] art libs up = Inr out \<Longrightarrow> Unsupported_format \<notin> set out"
  by (auto simp: file_branch_def rows_table_def split: sum.splits option.splits if_splits)

lemma file_branch_nonempty:
  "file_ext (file_name up) = Inr t \<Longrightarrow> t \<in> set doc_types \<Longrightarrow>
   file_branch otherwise art libs up = Inr out \<Longrightarrow> out \<noteq> []"
  by (auto simp: file_branch_def rows_table_def doc_types_def split: sum.splits option.splits)

lemma accepted_upload_app2_nonempty:
  "uploader_accepts doc_types (file_name up) \<Longrightarrow> handle_file_app2 art libs up \<noteq> []"
proof -
  assume "uploader_accepts doc_types (file_name up)"
  then obtain t where t: "t \<in> set doc_types" and e: "file_ext (file_name up) = Inr t"
    using file_ext_accepted [OF _ doc_types_plain] by blast
  show ?thesis
    using file_branch_nonempty [OF e t]
    by (auto simp: handle_file_app2_def handle_file_def split: sum.splits)
qed

text \<open>C9: through the uploader of src/app1.py, whose type filter admits only .txt, .csv, .docx and .pdf, the Unsupported file format branch is dead code: for every file the widget accepts, the upload sections of src/app1.py and src/app2.py render the same thing, and that is never the unsupported-format message.\<close>

theorem accepted_upload_same_handling:
  assumes "uploader_accepts doc_types (file_name up)"
  shows "handle_file_app1 art libs up = handle_file_app2 art libs up
    \<and> Unsupported_format \<notin> set (handle_file_app1 art libs up)"
proof -
  obtain t where t: "t \<in> set doc_types" and e: "file_ext (file_name up) = Inr t"
    using file_ext_accepted [OF assms doc_types_plain] by blast
  have same: "file_branch [Unsupported_format] art libs up = file_branch [] art libs up"
    by (rule file_branch_doc_type [OF e t])
  have "Unsupported_format \<notin> set (handle_file_app2 art libs up)"
    by (auto simp: handle_file_app2_def handle_file_def dest: unsupported_not_in_branch_app2
        split: sum.splits)
  with same show ?thesis
    by (simp add: handle_file_app1_def handle_file_app2_def handle_file_def)
qed

end
