(* ===== verification/Session2.thy ===== *)
theory Session2
  imports Upload_Filter
begin

text \<open>
  Streamlit's execution model for src/app2.py. The session holds the values of the widgets
  the last run rendered: the post (\<open>st.text_area\<close>, line 67), the document uploader
  (line 83), the image uploader (line 123) and the text area that shows the OCR result
  (line 131), together with that last run. A widget can be used only if the last run
  rendered it, and a widget the last run did not render loses its value. The OCR text area
  is created with \<open>value=extracted_text\<close>, so its identity includes the text it shows: an
  edit survives a rerun only while the same text is shown. Its return value is discarded
  by the script (line 131), and the image prediction reads \<open>extracted_text\<close> (line 135).
\<close>

record ('f, 'i) session2 =
  s2_post :: pystr
  s2_file :: "'f upload option"
  s2_image :: "'i option"
  s2_ocr_edit :: "(pystr \<times> pystr) option"
  s2_last :: run

datatype ('f, 'i) event2 =
    Edit_post pystr
  | Set_upload "'f upload option"
  | Set_image "'i option"
  | Edit_ocr pystr
  | Click_text
  | Click_image

text \<open>The text the OCR text area of a rendered page shows, if the page has one.\<close>

fun shown_ocr :: "ui list \<Rightarrow> pystr option" where
  "shown_ocr [] = None"
| "shown_ocr (Extracted_text t # _) = Some t"
| "shown_ocr (_ # us) = shown_ocr us"

text \<open>
  Which widgets the last run rendered: the post area and its button are rendered once the
  artifacts are loaded; the uploaders only if the run got past the single-post section;
  the OCR text area and the image button only with a successfully read image. The
  document uploader takes only files its type filter accepts.
\<close>

definition enabled2 :: "run \<Rightarrow> ('f, 'i) event2 \<Rightarrow> bool" where
  "enabled2 r e =
     (case e of
        Edit_post _ \<Rightarrow> fst r \<noteq> []
      | Click_text \<Rightarrow> fst r \<noteq> []
      | Set_upload f \<Rightarrow> fst r \<noteq> [] \<and> snd r = None
          \<and> (case f of None \<Rightarrow> True | Some up \<Rightarrow> uploader_accepts doc_types (file_name up))
      | Set_image _ \<Rightarrow> fst r \<noteq> [] \<and> snd r = None
      | Edit_ocr _ \<Rightarrow> shown_ocr (fst r) \<noteq> None
      | Click_image \<Rightarrow> shown_ocr (fst r) \<noteq> None)"

definition apply_event2 :: "('f, 'i) session2 \<Rightarrow> ('f, 'i) event2 \<Rightarrow> ('f, 'i) session2" where
  "apply_event2 s e =
     (case e of
        Edit_post t \<Rightarrow> s\<lparr>s2_post := t\<rparr>
      | Set_upload f \<Rightarrow> s\<lparr>s2_file := f\<rparr>
      | Set_image i \<Rightarrow> s\<lparr>s2_image := i\<rparr>
      | Edit_ocr t \<Rightarrow> s\<lparr>s2_ocr_edit := map_option (\<lambda>v. (v, t)) (shown_ocr (fst (s2_last s)))\<rparr>
      | Click_text \<Rightarrow> s
      | Click_image \<Rightarrow> s)"

text \<open>
  The values the rerun reads: \<open>st.button\<close> is true only in the rerun its click caused;
  the first run of a page has no event.
\<close>

definition rerun_inputs2 :: "('f, 'i) session2 \<Rightarrow> ('f, 'i) event2 option \<Rightarrow> ('f, 'i) inputs" where
  "rerun_inputs2 s e =
     \<lparr>text_clicked = (e = Some Click_text), user_text = s2_post s,
      uploaded_file = s2_file s, uploaded_image = s2_image s,
      image_clicked = (e = Some Click_image)\<rparr>"

text \<open>After a run, the widgets it did not render lose their values.\<close>

definition settle :: "('f, 'i) session2 \<Rightarrow> ('f, 'i) session2" where
  "settle s =
     (let r = s2_last s
      in s\<lparr>s2_post := (if fst r = [] then [] else s2_post s),
           s2_file := (if fst r \<noteq> [] \<and> snd r = None then s2_file s else None),
           s2_image := (if fst r \<noteq> [] \<and> snd r = None then s2_image s else None),
           s2_ocr_edit :=
             (case s2_ocr_edit s of
                None \<Rightarrow> None
              | Some (v, t) \<Rightarrow> if shown_ocr (fst r) = Some v then Some (v, t) else None)\<rparr>)"

definition rerun2 ::
  "'x artifacts py_result \<Rightarrow> 'f file_libs \<Rightarrow> ('i, 'm) image_libs \<Rightarrow> ('f, 'i) session2
   \<Rightarrow> ('f, 'i) event2 option \<Rightarrow> ('f, 'i) session2" where
  "rerun2 loaded libs ilibs s e =
     settle (s\<lparr>s2_last := run_app2 loaded libs ilibs (rerun_inputs2 s e)\<rparr>)"

definition init2 ::
  "'x artifacts py_result \<Rightarrow> 'f file_libs \<Rightarrow> ('i, 'm) image_libs \<Rightarrow> ('f, 'i) session2" where
  "init2 loaded libs ilibs =
     rerun2 loaded libs ilibs
       \<lparr>s2_post = [], s2_file = None, s2_image = None, s2_ocr_edit = None, s2_last = ([], None)\<rparr>
       None"

definition interact2 ::
  "'x artifacts py_result \<Rightarrow> 'f file_libs \<Rightarrow> ('i, 'm) image_libs \<Rightarrow> ('f, 'i) session2
   \<Rightarrow> ('f, 'i) event2 \<Rightarrow> ('f, 'i) session2" where
  "interact2 loaded libs ilibs s e = rerun2 loaded libs ilibs (apply_event2 s e) (Some e)"

inductive step2 ::
  "'x artifacts py_result \<Rightarrow> 'f file_libs \<Rightarrow> ('i, 'm) image_libs
   \<Rightarrow> ('f, 'i) session2 \<Rightarrow> ('f, 'i) session2 \<Rightarrow> bool"
  for loaded libs ilibs where
  interact: "enabled2 (s2_last s) e \<Longrightarrow> step2 loaded libs ilibs s (interact2 loaded libs ilibs s e)"

inductive reachable2 ::
  "'x artifacts py_result \<Rightarrow> 'f file_libs \<Rightarrow> ('i, 'm) image_libs \<Rightarrow> ('f, 'i) session2 \<Rightarrow> bool"
  for loaded libs ilibs where
  init: "reachable2 loaded libs ilibs (init2 loaded libs ilibs)"
| step: "reachable2 loaded libs ilibs s \<Longrightarrow> step2 loaded libs ilibs s s'
         \<Longrightarrow> reachable2 loaded libs ilibs s'"

inductive_cases step2E: "step2 loaded libs ilibs s s'"

fun is_banner :: "ui \<Rightarrow> bool" where
  "is_banner (Banner _) = True"
| "is_banner _ = False"

section \<open>Lemmas\<close>

lemma s2_last_settle [simp]: "s2_last (settle s) = s2_last s"
  by (simp add: settle_def Let_def)

lemma s2_last_rerun2:
  "s2_last (rerun2 loaded libs ilibs s e) = run_app2 loaded libs ilibs (rerun_inputs2 s e)"
  by (simp add: rerun2_def)

lemma reachable2_last_run:
  "reachable2 loaded libs ilibs s \<Longrightarrow> \<exists>inp. s2_last s = run_app2 loaded libs ilibs inp"
proof (induction rule: reachable2.induct)
  case init
  then show ?case by (auto simp: init2_def s2_last_rerun2)
next
  case (step s s')
  from step.hyps(2) show ?case
    by (cases rule: step2E) (auto simp: interact2_def s2_last_rerun2)
qed

lemma run_app2_loaded_nonempty: "fst (run_app2 (Inr art) libs ilibs inp) \<noteq> []"
  by (simp add: run_app2_def split: sum.splits)

lemma s2_post_settle:
  "fst (s2_last s) \<noteq> [] \<Longrightarrow> s2_post (settle s) = s2_post s"
  by (simp add: settle_def Let_def)

lemma reachable2_loaded_nonempty:
  "reachable2 (Inr art) libs ilibs s \<Longrightarrow> fst (s2_last s) \<noteq> []"
  using reachable2_last_run run_app2_loaded_nonempty by metis

subsection \<open>Banners\<close>

lemma banners_handle_file_app2: "filter is_banner (handle_file_app2 art libs up) = []"
  by (auto simp: handle_file_app2_def handle_file_def file_branch_def rows_table_def
      split: sum.splits option.splits)

lemma banners_handle_image:
  "length (filter is_banner (handle_image predict ilibs img clicked)) \<le> of_bool clicked"
  by (auto simp: handle_image_def split: sum.splits)

lemma banners_handle_text_app2:
  "handle_text_app2 art clicked t = Inr out \<Longrightarrow> length (filter is_banner out) \<le> of_bool clicked"
  by (auto simp: handle_text_app2_def split: if_splits sum.splits)

lemma banners_run_app2:
  "length (filter is_banner (fst (run_app2 loaded libs ilibs inp)))
     \<le> of_bool (text_clicked inp) + of_bool (image_clicked inp)"
proof (cases loaded)
  case (Inr art)
  show ?thesis
  proof (cases "handle_text_app2 art (text_clicked inp) (user_text inp)")
    case (Inr out)
    have t: "length (filter is_banner out) \<le> of_bool (text_clicked inp)"
      using Inr by (rule banners_handle_text_app2)
    have i: "length (filter is_banner (case uploaded_image inp of None \<Rightarrow> []
               | Some img \<Rightarrow> handle_image_app2 art ilibs img (image_clicked inp)))
             \<le> of_bool (image_clicked inp)"
      by (cases "uploaded_image inp") (simp_all add: handle_image_app2_def banners_handle_image)
    have f: "filter is_banner (case uploaded_file inp of None \<Rightarrow> []
               | Some up \<Rightarrow> handle_file_app2 art libs up) = []"
      by (cases "uploaded_file inp") (simp_all add: banners_handle_file_app2)
    show ?thesis using \<open>loaded = Inr art\<close> Inr t i f by (simp add: run_app2_def)
  qed (simp add: \<open>loaded = Inr art\<close> run_app2_def)
qed (simp add: run_app2_def)

lemma run_app2_text_banner:
  assumes "label_contract art" and "text_clicked inp" and "py_strip (user_text inp) \<noteq> []"
  shows "\<exists>v. Banner v \<in> set (fst (run_app2 (Inr art) libs ilibs inp))"
proof -
  obtain r where "predict_personality art (user_text inp) = Inr r"
    using predict_personality_contract [OF assms(1)] by blast
  with assms(2,3) show ?thesis by (auto simp: run_app2_def handle_text_app2_def)
qed

lemma s2_file_settle:
  "s2_file (settle s) = Some up \<Longrightarrow> s2_file s = Some up"
  by (simp add: settle_def Let_def split: if_splits)

lemma reachable2_file_accepted:
  "reachable2 loaded libs ilibs s \<Longrightarrow> s2_file s = Some up \<Longrightarrow> uploader_accepts doc_types (file_name up)"
proof (induction arbitrary: up rule: reachable2.induct)
  case init
  then show ?case by (auto simp: init2_def rerun2_def dest: s2_file_settle)
next
  case (step s s')
  from step.hyps(2) obtain e where e: "enabled2 (s2_last s) e"
    and s': "s' = interact2 loaded libs ilibs s e"
    by (cases rule: step2E) auto
  from step.prems s' have f: "s2_file (apply_event2 s e) = Some up"
    by (auto simp: interact2_def rerun2_def dest: s2_file_settle)
  show ?case
  proof (cases e)
    case (Set_upload f)
    with e f show ?thesis by (auto simp: enabled2_def apply_event2_def)
  qed (use f step.IH in \<open>auto simp: apply_event2_def\<close>)
qed

text \<open>C15: In every reachable session of src/app2.py the upload section of the page answers every file the user holds: the uploader's type filter admits only the four handled types, so the missing else branch of src/app2.py is never reached and the section never renders nothing.\<close>

theorem reachable2_upload_answered:
  assumes "reachable2 loaded libs ilibs s" and "s2_file s = Some up"
  shows "handle_file_app2 art flibs up \<noteq> []"
  using reachable2_file_accepted [OF assms] by (rule accepted_upload_app2_nonempty)

text \<open>with contract-respecting artifacts, no run of any reachable session of src/app2.py, whatever the user did with the rendered widgets, stops on an exception: each renders from the header to the footer.\<close>

lemma session2_never_crashes:
  assumes "reachable2 (Inr art) libs ilibs s" and "label_contract art"
  shows "snd (s2_last s) = None \<and> hd (fst (s2_last s)) = Header \<and> last (fst (s2_last s)) = Footer"
proof -
  obtain inp where "s2_last s = run_app2 (Inr art) libs ilibs inp"
    using reachable2_last_run [OF assms(1)] by blast
  then show ?thesis using run_app2_no_crash_aux [OF assms(2), of libs ilibs inp] by simp
qed

text \<open>C27: a rerun of src/app2.py caused by one interaction shows at most one prediction banner: the two buttons are never both true in one rerun, and the document upload never shows a banner.\<close>

theorem rerun2_at_most_one_banner:
  "length (filter is_banner (fst (s2_last (interact2 loaded libs ilibs s e)))) \<le> 1"
proof -
  let ?inp = "rerun_inputs2 (apply_event2 s e) (Some e)"
  have "of_bool (text_clicked ?inp) + of_bool (image_clicked ?inp) \<le> (1 :: nat)"
    by (cases e) (simp_all add: rerun_inputs2_def)
  then show ?thesis
    using banners_run_app2 [of loaded libs ilibs ?inp]
    by (simp add: interact2_def s2_last_rerun2)
qed

text \<open>C28: what the user types into the OCR text area of src/app2.py has no effect: the script discards the text area's value and predicts on the raw OCR output, so two sessions that differ only in that edit render the same page after any interaction.\<close>

theorem ocr_edit_ignored:
  "s2_last (interact2 loaded libs ilibs (s\<lparr>s2_ocr_edit := x\<rparr>) e) = s2_last (interact2 loaded libs ilibs s e)"
  by (cases e) (simp_all add: interact2_def s2_last_rerun2 rerun_inputs2_def apply_event2_def)

text \<open>C29: from every reachable session of src/app2.py with contract-respecting artifacts the user can still obtain a prediction: typing a non-blank post and clicking Predict Text are enabled steps, and the second rerun shows a banner.\<close>

theorem session2_can_predict:
  assumes "reachable2 (Inr art) libs ilibs s" and "label_contract art" and "py_strip t \<noteq> []"
  shows "\<exists>s'. (step2 (Inr art) libs ilibs)\<^sup>*\<^sup>* s s' \<and> (\<exists>v. Banner v \<in> set (fst (s2_last s')))"
proof -
  let ?s1 = "interact2 (Inr art) libs ilibs s (Edit_post t)"
  let ?s2 = "interact2 (Inr art) libs ilibs ?s1 Click_text"
  have st1: "step2 (Inr art) libs ilibs s ?s1"
    by (rule step2.interact) (use reachable2_loaded_nonempty [OF assms(1)] in \<open>simp add: enabled2_def\<close>)
  have ne1: "fst (s2_last ?s1) \<noteq> []"
    by (simp add: interact2_def s2_last_rerun2 run_app2_loaded_nonempty)
  have st2: "step2 (Inr art) libs ilibs ?s1 ?s2"
    by (rule step2.interact) (use ne1 in \<open>simp add: enabled2_def\<close>)
  have "s2_post ?s1 = t"
    using ne1 by (simp add: interact2_def rerun2_def s2_post_settle apply_event2_def)
  then have "\<exists>v. Banner v \<in> set (fst (s2_last ?s2))"
    using run_app2_text_banner [OF assms(2),
        where inp = "rerun_inputs2 (apply_event2 ?s1 Click_text) (Some Click_text)"
        and libs = libs and ilibs = ilibs] assms(3)
    by (simp add: interact2_def s2_last_rerun2 rerun_inputs2_def apply_event2_def)
  moreover have "(step2 (Inr art) libs ilibs)\<^sup>*\<^sup>* s ?s2"
    using st1 st2 by (meson rtranclp.rtrancl_into_rtrancl rtranclp.rtrancl_refl)
  ultimately show ?thesis by blast
qed

end
