(* ===== verification/Session_App.thy ===== *)
theory Session_App
  imports Session2
begin

text \<open>
  Streamlit's execution model for src/app.py: the session holds the image uploader's value
  (line 10), the edit of the OCR text area (line 21), and the last rendered page. The
  uploader is always rendered; the text area and the button (line 23) only when the image
  was opened and read. As in \<open>Session2\<close>, a widget the last run did not render loses its
  value, and the text area is identified by the text it shows.
\<close>

record 'i session0 =
  s0_image :: "'i option"
  s0_ocr_edit :: "(pystr \<times> pystr) option"
  s0_last :: run

datatype 'i event0 =
    Set_image0 "'i option"
  | Edit_ocr0 pystr
  | Click_predict0

definition enabled0 :: "run \<Rightarrow> 'i event0 \<Rightarrow> bool" where
  "enabled0 r e =
     (case e of
        Set_image0 _ \<Rightarrow> True
      | Edit_ocr0 _ \<Rightarrow> shown_ocr (fst r) \<noteq> None
      | Click_predict0 \<Rightarrow> shown_ocr (fst r) \<noteq> None)"

definition apply_event0 :: "'i session0 \<Rightarrow> 'i event0 \<Rightarrow> 'i session0" where
  "apply_event0 s e =
     (case e of
        Set_image0 i \<Rightarrow> s\<lparr>s0_image := i\<rparr>
      | Edit_ocr0 t \<Rightarrow> s\<lparr>s0_ocr_edit := map_option (\<lambda>v. (v, t)) (shown_ocr (fst (s0_last s)))\<rparr>
      | Click_predict0 \<Rightarrow> s)"

definition rerun_inputs0 :: "'i session0 \<Rightarrow> 'i event0 option \<Rightarrow> (unit, 'i) inputs" where
  "rerun_inputs0 s e =
     \<lparr>text_clicked = False, user_text = [], uploaded_file = None,
      uploaded_image = s0_image s, image_clicked = (e = Some Click_predict0)\<rparr>"

definition settle0 :: "'i session0 \<Rightarrow> 'i session0" where
  "settle0 s =
     s\<lparr>s0_ocr_edit :=
        (case s0_ocr_edit s of
           None \<Rightarrow> None
         | Some (v, t) \<Rightarrow> if shown_ocr (fst (s0_last s)) = Some v then Some (v, t) else None)\<rparr>"

definition rerun0 :: "('i, 'm) image_libs \<Rightarrow> 'i session0 \<Rightarrow> 'i event0 option \<Rightarrow> 'i session0" where
  "rerun0 ilibs s e = settle0 (s\<lparr>s0_last := run_app ilibs (rerun_inputs0 s e)\<rparr>)"

definition init0 :: "('i, 'm) image_libs \<Rightarrow> 'i session0" where
  "init0 ilibs = rerun0 ilibs \<lparr>s0_image = None, s0_ocr_edit = None, s0_last = ([], None)\<rparr> None"

definition interact0 :: "('i, 'm) image_libs \<Rightarrow> 'i session0 \<Rightarrow> 'i event0 \<Rightarrow> 'i session0" where
  "interact0 ilibs s e = rerun0 ilibs (apply_event0 s e) (Some e)"

inductive step0 :: "('i, 'm) image_libs \<Rightarrow> 'i session0 \<Rightarrow> 'i session0 \<Rightarrow> bool"
  for ilibs where
  interact: "enabled0 (s0_last s) e \<Longrightarrow> step0 ilibs s (interact0 ilibs s e)"

inductive reachable0 :: "('i, 'm) image_libs \<Rightarrow> 'i session0 \<Rightarrow> bool"
  for ilibs where
  init: "reachable0 ilibs (init0 ilibs)"
| step: "reachable0 ilibs s \<Longrightarrow> step0 ilibs s s' \<Longrightarrow> reachable0 ilibs s'"

inductive_cases step0E: "step0 ilibs s s'"

section \<open>Lemmas\<close>

lemma s0_last_rerun0: "s0_last (rerun0 ilibs s e) = run_app ilibs (rerun_inputs0 s e)"
  by (simp add: rerun0_def settle0_def)

lemma s0_image_rerun0 [simp]: "s0_image (rerun0 ilibs s e) = s0_image s"
  by (simp add: rerun0_def settle0_def)

lemma rerun_inputs0_rerun0 [simp]: "rerun_inputs0 (rerun0 ilibs s e) e' = rerun_inputs0 s e'"
  by (simp add: rerun_inputs0_def)

text \<open>The last page of a reachable session is the run of the image the session holds.\<close>

lemma reachable0_last:
  "reachable0 ilibs s \<Longrightarrow> \<exists>e. s0_last s = run_app ilibs (rerun_inputs0 s e)"
proof (induction rule: reachable0.induct)
  case init
  show ?case by (rule exI [of _ None]) (simp add: init0_def s0_last_rerun0)
next
  case (step s s')
  from step.hyps(2) obtain e where s': "s' = interact0 ilibs s e"
    by (cases rule: step0E) auto
  show ?case
    by (rule exI [of _ "Some e"]) (simp add: s' interact0_def s0_last_rerun0)
qed

lemma shown_ocr_append_Extracted:
  "(\<forall>u \<in> set us. \<forall>x. u \<noteq> Extracted_text x) \<Longrightarrow> shown_ocr (us @ Extracted_text t # vs) = Some t"
  by (induction us rule: shown_ocr.induct) auto

lemma run_app_image_read:
  assumes "image_open ilibs img = Inr im" and "image_to_string ilibs im = Inr t"
  shows "fst (run_app ilibs \<lparr>text_clicked = c1, user_text = u, uploaded_file = f,
                uploaded_image = Some img, image_clicked = c2\<rparr>)
    = Header # Image_shown # Extracted_text t #
        (if \<not> c2 then [] else if py_strip t \<noteq> [] then [Image_error (NameError ''predict_personality'')]
         else [Warn_no_image_text])"
  using assms
  by (simp add: run_app_def handle_image_app_def handle_image_def undefined_predict_def)

text \<open>C22: in every reachable session of src/app.py that holds an image which opens and whose OCR text is not blank, the Predict button is shown and can be clicked, and the click always ends in the NameError of the undefined predict_personality, shown as an image error: the image flow of src/app.py can never predict.\<close>

theorem app_session_click_fails:
  assumes "reachable0 ilibs s" and "s0_image s = Some img"
    and "image_open ilibs img = Inr im" and "image_to_string ilibs im = Inr t"
    and "py_strip t \<noteq> []"
  shows "step0 ilibs s (interact0 ilibs s Click_predict0)
    \<and> fst (s0_last (interact0 ilibs s Click_predict0))
        = [Header, Image_shown, Extracted_text t, Image_error (NameError ''predict_personality'')]"
proof -
  obtain e where "s0_last s = run_app ilibs (rerun_inputs0 s e)"
    using reachable0_last [OF assms(1)] by blast
  then have "shown_ocr (fst (s0_last s)) = Some t"
    using assms(2) by (simp add: rerun_inputs0_def run_app_image_read [OF assms(3,4)])
  then have "enabled0 (s0_last s) (Click_predict0 :: 'a event0)" by (simp add: enabled0_def)
  then have st: "step0 ilibs s (interact0 ilibs s Click_predict0)" by (rule step0.interact)
  have "fst (s0_last (interact0 ilibs s Click_predict0))
        = [Header, Image_shown, Extracted_text t, Image_error (NameError ''predict_personality'')]"
    using assms(2,5)
    by (simp add: interact0_def s0_last_rerun0 rerun_inputs0_def apply_event0_def
        run_app_image_read [OF assms(3,4)])
  with st show ?thesis by blast
qed

end
