(* ===== verification/Ocr.thy ===== *)
theory Ocr
  imports App
begin

text \<open>
  What \<open>pytesseract.image_to_string\<close> does with its configuration: it runs the program
  named by \<open>pytesseract.pytesseract.tesseract_cmd\<close> (default \<open>tesseract\<close>, looked up on
  the PATH); if no such program can be started it raises \<open>TesseractNotFoundError\<close>,
  otherwise it returns what the OCR engine gives, or the engine's error. The host is a
  record: which command names it can run, and the engine's result on an image.
  src/app2.py line 14 sets the command to a fixed Windows path; src/app.py leaves the
  default (line 7 is commented out).
\<close>

record 'm ocr_host =
  host_runs :: "pystr \<Rightarrow> bool"
  host_tesseract :: "'m \<Rightarrow> pystr py_result"

definition tesseract_not_found :: py_error where
  "tesseract_not_found = LibraryError ''TesseractNotFoundError''"

definition pytesseract_image_to_string :: "pystr \<Rightarrow> 'm ocr_host \<Rightarrow> 'm \<Rightarrow> pystr py_result" where
  "pytesseract_image_to_string cmd h im =
     (if host_runs h cmd then host_tesseract h im else Inl tesseract_not_found)"

definition tesseract_default :: pystr where
  "tesseract_default = ''tesseract''"

text \<open>\<open>r'C:\Program Files\Tesseract-OCR\tesseract.exe'\<close>; the backslash is code point 92.\<close>

definition tesseract_cmd_app2 :: pystr where
  "tesseract_cmd_app2 =
     ''C:'' @ [CHR 0x5C] @ ''Program Files'' @ [CHR 0x5C] @ ''Tesseract-OCR'' @ [CHR 0x5C]
     @ ''tesseract.exe''"

definition ocr_libs :: "pystr \<Rightarrow> ('i \<Rightarrow> 'm py_result) \<Rightarrow> 'm ocr_host \<Rightarrow> ('i, 'm) image_libs" where
  "ocr_libs cmd open_image h =
     \<lparr>image_open = open_image, image_to_string = pytesseract_image_to_string cmd h\<rparr>"

definition app2_ocr_libs :: "('i \<Rightarrow> 'm py_result) \<Rightarrow> 'm ocr_host \<Rightarrow> ('i, 'm) image_libs" where
  "app2_ocr_libs = ocr_libs tesseract_cmd_app2"

definition app_ocr_libs :: "('i \<Rightarrow> 'm py_result) \<Rightarrow> 'm ocr_host \<Rightarrow> ('i, 'm) image_libs" where
  "app_ocr_libs = ocr_libs tesseract_default"

section \<open>Lemmas\<close>

lemma image_to_string_missing_cmd:
  "\<not> host_runs h cmd \<Longrightarrow> image_to_string (ocr_libs cmd op h) im = Inl tesseract_not_found"
  by (simp add: ocr_libs_def pytesseract_image_to_string_def)

lemma image_to_string_cmd:
  "host_runs h cmd \<Longrightarrow> image_to_string (ocr_libs cmd op h) im = host_tesseract h im"
  by (simp add: ocr_libs_def pytesseract_image_to_string_def)

lemma image_open_ocr_libs [simp]: "image_open (ocr_libs cmd op h) = op"
  by (simp add: ocr_libs_def)

text \<open>C16: on a host that cannot run the fixed Windows path of line 14 (any host but a Windows machine with Tesseract installed there), every image upload in src/app2.py shows the image and then the error, never the extracted text or a prediction, even where Tesseract is installed on the PATH.\<close>

theorem app2_ocr_needs_windows_path:
  assumes "\<not> host_runs h tesseract_cmd_app2"
  shows "handle_image_app2 art (app2_ocr_libs op h) img clicked =
    (case op img of
       Inl e \<Rightarrow> [Image_error e]
     | Inr _ \<Rightarrow> [Image_shown, Image_error tesseract_not_found])"
  using assms
  by (simp add: handle_image_app2_def handle_image_def app2_ocr_libs_def image_to_string_missing_cmd
      split: sum.splits)

end
