(* ===== verification/Spec2Isabelle.thy ===== *)
theory Spec2Isabelle
  imports Model Session Session_App Ocr
begin

text \<open>
  \<^bold>\<open>A verification library for personality-prediction-socialmedia.\<close>

  \<^bold>\<open>The program.\<close> Three Streamlit scripts classify a social-media post as happy or
  sad. src/app1.py and src/app2.py load two pickled artifacts (a vectorizer and a model),
  define \<open>clean_text\<close> (four regular-expression substitutions, \<open>lower\<close>, \<open>strip\<close>),
  \<open>predict_personality\<close> (clean, vectorize a one-text batch, take the first predicted
  label) and two extractors (\<open>extract_docx_text\<close>, \<open>extract_pdf_text\<close>), then render a
  single-post form and a file upload (.csv, .txt, .docx, .pdf); src/app2.py adds an image
  upload read by OCR. src/app.py is the image upload alone. Each user action reruns a
  script from the top.

  \<^bold>\<open>Theories, bottom up.\<close>
  \<^item> \<open>Prelude\<close>: the Python exceptions (\<open>py_error\<close>), the result type \<open>'a py_result\<close>
    (\<open>Inl\<close> is a raise), Python indexing \<open>py_index\<close> and the exception-propagating map
    \<open>py_map\<close> (a comprehension, \<open>Series.apply\<close>), shared list lemmas and the rule
    collections \<open>py_char_simps\<close> and \<open>py_result_simps\<close>.
  \<^item> \<open>PyStr\<close>: the \<open>str\<close> operations the scripts call, on code points 0..255 (a
    \<open>char\<close>): CPython's \<open>isspace\<close>/\<open>\s\<close>, \<open>\w\<close>, \<open>lower\<close>, \<open>strip\<close>,
    \<open>splitlines\<close> (its CPython loop, with \<open>\r\n\<close> as one break) and \<open>split\<close> on one
    character, each table checked against CPython on that range. Lemmas: \<open>strip\<close> trims and
    is idempotent, \<open>splitlines\<close> and \<open>split\<close> round-trip with \<open>join\<close>.
  \<^item> \<open>Regex\<close>: \<open>re.sub\<close> as CPython's scan over a head matcher (\<open>re_sub\<close>, a
    \<open>function\<close> terminating by the length of the rest), the greedy matcher of \<open>lit C+\<close>
    and the one-character class. Lemmas: the greedy matcher finds the longest match of
    the pattern's language (the reference semantics \<open>lang_lit_plus\<close>); with an empty
    replacement substitution only deletes, leaves no match of a \<open>lit C+\<close> pattern
    behind, and for a one-character class is a filter.
  \<^item> \<open>Cleaner\<close>: \<open>clean_text\<close> as the composition of the four substitutions, \<open>lower\<close>
    and \<open>strip\<close> (src/app1.py 17--22, src/app2.py 30--35). C1--C5: the output holds only
    lower-case ASCII letters and whitespace, is trimmed, is a subsequence of the
    lower-cased input, and the exact condition under which cleaning twice equals
    cleaning once (it does not in general, contrary to the spec: the lemma
    \<open>clean_text_not_idempotent\<close>). C6: each of the patterns of lines 18--20 matches the
    longest prefix in its regular expression's language; C7: line 21 keeps exactly the
    letters and whitespace. C26: the URL substitution leaves no \<open>http\<close> followed by
    a non-space, but the later steps can join a new URL-shaped word (the lemma
    \<open>clean_text_url_reappears\<close>).
  \<^item> \<open>Predict\<close>: the artifacts as an interface (a record of \<open>transform\<close> and
    \<open>predict\<close> over an abstract matrix type), \<open>predict_personality\<close>
    (src/app1.py 25--28), the banner choice \<open>show_label\<close>, and \<open>label_contract\<close>, the
    property of the artifacts the scripts rely on. C8: the only failure of
    \<open>predict_personality\<close> is the \<open>IndexError\<close> of \<open>[0]\<close> on an empty prediction.
  \<^item> \<open>Model\<close>: the spec's description of the artifacts (not code of the repository): a
    bag-of-words count vectorizer with scikit-learn's default tokens and a linear
    classifier with integer weights. It meets the contract, and predictions through it
    ignore word order (C10, through multisets of tokens) and, as the spec's test double, gives the spec's
    two answers.
  \<^item> \<open>Extract\<close>: the docx paragraph filter, the PDF page loop (a page may raise or have
    no text), the \<open>.txt\<close> line filter, the per-line predictions and the CSV column as
    pandas cells, where a non-string cell makes \<open>re.sub\<close> raise \<open>TypeError\<close>. C24:
    the PDF loop keeps the lines of the pages with text, in page order.
  \<^item> \<open>App\<close>: the rendered elements (\<open>ui\<close>), the upload handler with its
    \<open>try\<close>/\<open>except\<close> (\<open>file_branch\<close>, \<open>handle_file\<close>; the two scripts differ only in
    the final \<open>else\<close>), the single-post handlers (outside any \<open>try\<close>), the image
    handler parameterised by the predictor (src/app.py has none defined), and one run of
    each script from the loading of the artifacts to the footer. C11--C14: a CSV or txt
    upload renders each row or non-blank line with its own prediction, in order, a CSV
    without a text column is reported, one non-string cell fails the whole upload;
    C17--C21, C23: the two single-post handlers are equal and give one banner or a
    warning, src/app.py never predicts, src/app2.py predicts on the whole OCR text,
    and a run with loaded, well-behaved artifacts never stops on an exception.
  \<^item> \<open>Upload_Filter\<close>: the \<open>type=\<close> filter of \<open>st.file_uploader\<close> (src/app1.py line
    70, src/app2.py line 83): a file is accepted when its lower-cased name ends with a dot
    and an allowed type (\<open>uploader_accepts\<close>, \<open>ends_with\<close>, \<open>doc_types\<close>). For an
    accepted file \<open>file_ext\<close> is that type, so the unsupported-format branch of
    src/app1.py is dead code and the two scripts handle the file alike (C9).
  \<^item> \<open>Ocr\<close>: how \<open>pytesseract.image_to_string\<close> chooses the OCR program: the host
    (\<open>ocr_host\<close>) runs the configured command or the call raises
    \<open>TesseractNotFoundError\<close>. src/app2.py line 14 fixes a Windows path
    (\<open>tesseract_cmd_app2\<close>), src/app.py keeps the default; on any host that cannot run
    that path every image upload of src/app2.py ends in the error (C16).
  \<^item> \<open>Session\<close>: Streamlit's rerun model for src/app1.py. The session stores the
    values of \<open>st.text_area\<close> and \<open>st.file_uploader\<close> (lines 54 and 70); an
    interaction (\<open>event\<close>) edits one of them or clicks the button, then the whole
    script reruns (\<open>interact_app1\<close>), reading \<open>st.button\<close> as true only in the
    rerun its click caused. \<open>session_runs\<close> is the sequence of runs of a sequence of
    interactions. C25: a banner appears exactly in the click's rerun, for a non-blank
    stored post.
  \<^item> \<open>Session2\<close>: the same for src/app2.py, as an \<open>inductive\<close> step relation
    \<open>step2\<close> over the session (\<open>session2\<close>: the post, the two uploads, the edit of the
    OCR text area, and the last rendered page) and its reachable states
    \<open>reachable2\<close>. A step is an interaction with a widget the last page rendered
    (\<open>enabled2\<close>), followed by a rerun (\<open>rerun2\<close>) and Streamlit's cleanup of the
    widgets that run did not render (\<open>settle\<close>); the document uploader takes only
    files its type filter accepts. C15 (by rule induction): every file a reachable
    session holds passed the filter, so its upload section always renders something;
    C27: a rerun shows at most one banner; C28: an edit of the OCR text area never
    changes a page, since src/app2.py discards its value; C29: from every reachable
    session a prediction is still reachable.
  \<^item> \<open>Session_App\<close>: the same for src/app.py (\<open>session0\<close>, \<open>step0\<close>,
    \<open>reachable0\<close>): the image uploader, the OCR text area and the Predict button,
    which is rendered only after the image was read. C22: in every reachable session
    holding a readable image the button can be clicked, and the click always ends in the
    \<open>NameError\<close> of the undefined \<open>predict_personality\<close>.

  This theory holds the witnesses: every theorem with a hypothesis is applied to a
  concrete input (the test-double model \<open>happy_double\<close>, concrete uploads and library
  results over the unit type) and its hypotheses are discharged there by evaluation.

  \<^bold>\<open>Bounds and termination.\<close> No loop of the program can run forever: every recursion
  is structural or decreases the length of the remaining text (\<open>py_splitlines\<close>,
  \<open>re_sub\<close>, \<open>word_runs\<close>), so no fuel is needed. Characters are limited to code
  points below 256; on that range every class is exact, and code points above it are
  not modelled (\<open>\w\<close> and \<open>lower\<close> above 255 need the Unicode database).

  \<^bold>\<open>Not modelled.\<close> Streamlit's rendering (page layout, styles, emoji),
  pandas' CSV parsing and type inference (its result, the columns of cells, is an
  input), python-docx, PyPDF2, PIL and the OCR engine (records of functions
  returning results or exceptions; of pytesseract only its choice of program is
  modelled), the image uploader's type filter (an image is opaque, without a name),
  UTF-8 decoding, pickle (the artifacts or the first
  load error), floating-point arithmetic in the classifier.

  Round trips of the docx and txt extractors would be statements about python-docx's
  paragraph splitting and UTF-8 decoding, which are inputs here; the spec's single
  presentation layer parameterised by input channels is a design recommendation, not
  behaviour of the code, and is not modelled (the scripts' shared parts are proved
  equal instead: C9, C17).
\<close>

section \<open>Concrete inputs for the witnesses\<close>

definition demo_upload :: "pystr \<Rightarrow> unit upload" where
  "demo_upload name = \<lparr>file_name = name, file_data = ()\<rparr>"

definition demo_libs :: "dataframe py_result \<Rightarrow> pystr py_result \<Rightarrow> pdf_page list py_result \<Rightarrow> unit file_libs" where
  "demo_libs csv txt pdf =
     \<lparr>read_csv = (\<lambda>_. csv), decode_utf8 = (\<lambda>_. txt),
      docx_paragraphs = (\<lambda>_. Inl (LibraryError ''not a docx'')), pdf_pages = (\<lambda>_. pdf)\<rparr>"

definition demo_image_libs :: "pystr \<Rightarrow> (unit, unit) image_libs" where
  "demo_image_libs t = \<lparr>image_open = (\<lambda>_. Inr ()), image_to_string = (\<lambda>_. Inr t)\<rparr>"

definition demo_frame :: "cell list \<Rightarrow> dataframe" where
  "demo_frame cells = \<lparr>columns = [(''id'', [CInt 1]), (''text'', cells)]\<rparr>"

abbreviation demo_art :: "nat list list artifacts" where
  "demo_art \<equiv> bow_artifacts happy_double"

definition demo_inputs :: "bool \<Rightarrow> pystr \<Rightarrow> (unit, unit) inputs" where
  "demo_inputs clicked t =
     \<lparr>text_clicked = clicked, user_text = t, uploaded_file = Some (demo_upload ''notes.txt''),
      uploaded_image = Some (), image_clicked = True\<rparr>"

abbreviation demo_session :: "unit event list" where
  "demo_session \<equiv> [Edit_text ''So happy'', Set_file None, Click_predict]"

abbreviation demo_file_libs :: "unit file_libs" where
  "demo_file_libs \<equiv> demo_libs (Inr \<lparr>columns = []\<rparr>) (Inr ''So happy'') (Inr [])"

abbreviation demo_start :: "(unit, unit) session2" where
  "demo_start \<equiv> init2 (Inr demo_art) demo_file_libs (demo_image_libs ''So happy'')"

text \<open>A Linux host with Tesseract on its PATH, whose engine reads the post in the image.\<close>

definition demo_host :: "unit ocr_host" where
  "demo_host = \<lparr>host_runs = (\<lambda>c. c = ''tesseract''), host_tesseract = (\<lambda>_. Inr ''So happy'')\<rparr>"

abbreviation demo_upload_step :: "(unit, unit) session2" where
  "demo_upload_step \<equiv> interact2 (Inr demo_art) demo_file_libs (demo_image_libs ''So happy'')
     demo_start (Set_upload (Some (demo_upload ''notes.txt'')))"

abbreviation demo_app_session :: "unit session0" where
  "demo_app_session \<equiv> interact0 (demo_image_libs ''So happy'') (init0 (demo_image_libs ''So happy''))
     (Set_image0 (Some ()))"

section \<open>Witnesses\<close>

lemma clean_hi_there: "clean_text ''Hi there'' = ''hi there''"
  by (simp add: clean_text_def clean_patterns match_lit_plus_def match_class_def
      py_strip_def py_lstrip_def py_rstrip_def py_char_simps)

theorem clean_text_idem_no_http_witness:
  "\<not> sublist ''http'' (clean_text ''Hi there'')
   \<and> clean_text (clean_text ''Hi there'') = clean_text ''Hi there''"
proof -
  have h: "\<not> sublist ''http'' (clean_text ''Hi there'')"
    unfolding clean_hi_there by code_simp
  show ?thesis using h Cleaner.clean_text_idem_no_http [OF h] by simp
qed

lemma tokens_so_happy: "sk_tokens (clean_text ''So happy'') = [''so'', ''happy'']"
proof -
  have "clean_text ''So happy'' = ''so happy''"
    by (simp add: clean_text_def clean_patterns match_lit_plus_def match_class_def
        py_strip_def py_lstrip_def py_rstrip_def py_char_simps)
  then show ?thesis by (simp only:) code_simp
qed

lemma tokens_happy_so: "sk_tokens (clean_text ''happy, so!'') = [''happy'', ''so'']"
proof -
  have "clean_text ''happy, so!'' = ''happy so''"
    by (simp add: clean_text_def clean_patterns match_lit_plus_def match_class_def
        py_strip_def py_lstrip_def py_rstrip_def py_char_simps)
  then show ?thesis by (simp only:) code_simp
qed

theorem predict_bow_word_order_witness:
  "mset (sk_tokens (clean_text ''So happy'')) = mset (sk_tokens (clean_text ''happy, so!''))
   \<and> predict_personality demo_art ''So happy'' = predict_personality demo_art ''happy, so!''"
proof -
  have h: "mset (sk_tokens (clean_text ''So happy'')) = mset (sk_tokens (clean_text ''happy, so!''))"
    by (simp add: tokens_so_happy tokens_happy_so)
  show ?thesis using h Model.predict_bow_word_order [OF h] by simp
qed

lemma predict_so_happy: "predict_personality demo_art ''So happy'' = Inr ''happy''"
  using tokens_so_happy
  by (simp add: predict_bow bow_vector_def happy_double_def linear_label_def decision_def)

lemma ext_of_demo: "file_ext (file_name (demo_upload name)) = Inr (py_lower (rev (takeWhile (\<lambda>c. c \<noteq> CHR ''.'') (rev name))))"
  by (simp add: demo_upload_def file_ext_eq)

theorem csv_no_text_column_witness:
  "file_ext (file_name (demo_upload ''posts.csv'')) = Inr ''csv''
   \<and> read_csv (demo_libs (Inr \<lparr>columns = [(''Text'', [CStr ''hi''])]\<rparr>) (Inl UnicodeDecodeError) (Inr []))
       (file_data (demo_upload ''posts.csv'')) = Inr \<lparr>columns = [(''Text'', [CStr ''hi''])]\<rparr>
   \<and> map_of (columns \<lparr>columns = [(''Text'', [CStr ''hi''])]\<rparr>) ''text'' = None
   \<and> handle_file_app1 demo_art
       (demo_libs (Inr \<lparr>columns = [(''Text'', [CStr ''hi''])]\<rparr>) (Inl UnicodeDecodeError) (Inr []))
       (demo_upload ''posts.csv'') = [Csv_no_text_column]"
proof -
  have e: "file_ext (file_name (demo_upload ''posts.csv'')) = Inr ''csv''"
    by (simp add: ext_of_demo py_char_simps)
  have r: "read_csv (demo_libs (Inr \<lparr>columns = [(''Text'', [CStr ''hi''])]\<rparr>) (Inl UnicodeDecodeError) (Inr []))
       (file_data (demo_upload ''posts.csv'')) = Inr \<lparr>columns = [(''Text'', [CStr ''hi''])]\<rparr>"
    by (simp add: demo_libs_def)
  have m: "map_of (columns \<lparr>columns = [(''Text'', [CStr ''hi''])]\<rparr>) ''text'' = None"
    by simp
  show ?thesis using e r m App.csv_no_text_column [OF e r m] by simp
qed

theorem csv_non_str_cell_witness:
  "label_contract demo_art
   \<and> file_ext (file_name (demo_upload ''posts.csv'')) = Inr ''csv''
   \<and> read_csv (demo_libs (Inr (demo_frame [CStr ''So happy'', CNaN])) (Inl UnicodeDecodeError) (Inr []))
       (file_data (demo_upload ''posts.csv'')) = Inr (demo_frame [CStr ''So happy'', CNaN])
   \<and> map_of (columns (demo_frame [CStr ''So happy'', CNaN])) ''text'' = Some [CStr ''So happy'', CNaN]
   \<and> \<not> list_all is_str [CStr ''So happy'', CNaN]
   \<and> handle_file_app1 demo_art
       (demo_libs (Inr (demo_frame [CStr ''So happy'', CNaN])) (Inl UnicodeDecodeError) (Inr []))
       (demo_upload ''posts.csv'') = [File_error TypeError]"
proof -
  have e: "file_ext (file_name (demo_upload ''posts.csv'')) = Inr ''csv''"
    by (simp add: ext_of_demo py_char_simps)
  have r: "read_csv (demo_libs (Inr (demo_frame [CStr ''So happy'', CNaN])) (Inl UnicodeDecodeError) (Inr []))
       (file_data (demo_upload ''posts.csv'')) = Inr (demo_frame [CStr ''So happy'', CNaN])"
    by (simp add: demo_libs_def)
  have m: "map_of (columns (demo_frame [CStr ''So happy'', CNaN])) ''text'' = Some [CStr ''So happy'', CNaN]"
    by (simp add: demo_frame_def)
  have n: "\<not> list_all is_str [CStr ''So happy'', CNaN]" by simp
  show ?thesis
    using happy_double_contract e r m n App.csv_non_str_cell [OF happy_double_contract e r m n] by simp
qed

lemma pdf_blank_pages_example:
  "file_ext (file_name (demo_upload ''scan.PDF'')) = Inr ''pdf''
   \<and> pdf_pages (demo_libs (Inl UnicodeDecodeError) (Inl UnicodeDecodeError) (Inr [Inr None, Inr (Some [])]))
       (file_data (demo_upload ''scan.PDF'')) = Inr [Inr None, Inr (Some [])]
   \<and> list_all (\<lambda>p. p = Inr None \<or> p = Inr (Some [])) [Inr None, Inr (Some [])]
   \<and> handle_file_app1 demo_art
       (demo_libs (Inl UnicodeDecodeError) (Inl UnicodeDecodeError) (Inr [Inr None, Inr (Some [])]))
       (demo_upload ''scan.PDF'') = [Predictions_done, Posts_table []]"
proof -
  have e: "file_ext (file_name (demo_upload ''scan.PDF'')) = Inr ''pdf''"
    by (simp add: ext_of_demo py_char_simps)
  have p: "pdf_pages (demo_libs (Inl UnicodeDecodeError) (Inl UnicodeDecodeError) (Inr [Inr None, Inr (Some [])]))
       (file_data (demo_upload ''scan.PDF'')) = Inr [Inr None, Inr (Some [])]"
    by (simp add: demo_libs_def)
  have b: "list_all (\<lambda>p. p = Inr None \<or> p = Inr (Some [])) [Inr None, Inr (Some ([] :: pystr))]"
    by simp
  show ?thesis using e p b App.pdf_blank_pages [OF e p b] by simp
qed

theorem handle_text_contract_witness:
  "label_contract demo_art
   \<and> py_strip ''So happy'' \<noteq> []
   \<and> handle_text_app1 demo_art True ''So happy'' \<in> {Inr [Banner Happy], Inr [Banner Sad]}"
proof -
  have s: "py_strip ''So happy'' \<noteq> []"
    by (simp add: py_strip_def py_lstrip_def py_rstrip_def py_char_simps)
  show ?thesis
    using happy_double_contract s App.handle_text_contract [OF happy_double_contract, of "''So happy''"]
    by simp
qed

theorem app2_image_whole_text_witness:
  "image_open (demo_image_libs ''So happy'') () = Inr ()
   \<and> image_to_string (demo_image_libs ''So happy'') () = Inr ''So happy''
   \<and> py_strip ''So happy'' \<noteq> []
   \<and> predict_personality demo_art ''So happy'' = Inr ''happy''
   \<and> handle_image_app2 demo_art (demo_image_libs ''So happy'') () True
       = [Image_shown, Extracted_text ''So happy'', Banner (show_label ''happy'')]"
proof -
  have o: "image_open (demo_image_libs ''So happy'') () = Inr ()"
    by (simp add: demo_image_libs_def)
  have t: "image_to_string (demo_image_libs ''So happy'') () = Inr ''So happy''"
    by (simp add: demo_image_libs_def)
  have s: "py_strip ''So happy'' \<noteq> []"
    by (simp add: py_strip_def py_lstrip_def py_rstrip_def py_char_simps)
  show ?thesis
    using o t s predict_so_happy App.app2_image_whole_text [OF o t s predict_so_happy] by simp
qed

theorem run_app1_no_crash_witness:
  "label_contract demo_art
   \<and> snd (run_app1 (Inr demo_art) (demo_libs (Inr \<lparr>columns = []\<rparr>) (Inr ''So happy'') (Inr [])) (demo_inputs True ''So happy'')) = None
   \<and> hd (fst (run_app1 (Inr demo_art) (demo_libs (Inr \<lparr>columns = []\<rparr>) (Inr ''So happy'') (Inr [])) (demo_inputs True ''So happy''))) = Header
   \<and> last (fst (run_app1 (Inr demo_art) (demo_libs (Inr \<lparr>columns = []\<rparr>) (Inr ''So happy'') (Inr [])) (demo_inputs True ''So happy''))) = Footer"
  using happy_double_contract App.run_app1_no_crash [OF happy_double_contract] by simp

theorem run_app2_no_crash_witness:
  "label_contract demo_art
   \<and> snd (run_app2 (Inr demo_art) (demo_libs (Inr \<lparr>columns = []\<rparr>) (Inr ''So happy'') (Inr []))
        (demo_image_libs ''So happy'') (demo_inputs True ''So happy'')) = None
   \<and> last (fst (run_app2 (Inr demo_art) (demo_libs (Inr \<lparr>columns = []\<rparr>) (Inr ''So happy'') (Inr []))
        (demo_image_libs ''So happy'') (demo_inputs True ''So happy''))) = Footer"
  using happy_double_contract App.run_app2_no_crash [OF happy_double_contract] by simp

theorem pdf_collect_ok_witness:
  "list_all (\<lambda>p. \<exists>t. p = Inr t) [Inr (Some ''a''), Inr None, Inr (Some ''b'') :: pdf_page]
   \<and> pdf_collect [] [Inr (Some ''a''), Inr None, Inr (Some ''b'')] = Inr (py_splitlines ''a'' @ py_splitlines ''b'')"
proof -
  have h: "\<forall>p \<in> set [Inr (Some ''a''), Inr None, Inr (Some ''b'') :: pdf_page]. \<exists>t. p = Inr t"
    by simp
  show ?thesis using h Extract.pdf_collect_ok [OF h, of "[]"] by simp
qed

theorem banner_only_on_click_witness:
  "label_contract demo_art \<and> 2 < length demo_session
   \<and> (\<exists>v. Banner v \<in> set (fst (session_runs (Inr demo_art) demo_file_libs initial_session demo_session ! 2)))"
proof -
  have k: "2 < length demo_session" by simp
  have t: "py_strip ''So happy'' \<noteq> []"
    by (simp add: py_strip_def py_lstrip_def py_rstrip_def py_char_simps)
  show ?thesis
    using happy_double_contract k t
      Session.banner_only_on_click [OF happy_double_contract k, of demo_file_libs initial_session]
    by (simp add: initial_session_def apply_event_def numeral_2_eq_2)
qed

theorem url_step_complete_witness:
  "\<not> py_isspace (CHR ''x'') \<and> \<not> sublist (''http'' @ [CHR ''x'']) (re_sub pat_url [] ''hthttp://a.btpx'')"
proof -
  have x: "\<not> py_isspace (CHR ''x'')" by (simp add: py_isspace_def py_char_simps)
  show ?thesis using x Cleaner.url_step_complete [OF x, of "''hthttp://a.btpx''"] by simp
qed

theorem session2_can_predict_witness:
  "reachable2 (Inr demo_art) demo_file_libs (demo_image_libs ''So happy'') demo_start
   \<and> label_contract demo_art \<and> py_strip ''So happy'' \<noteq> []
   \<and> (\<exists>s'. (step2 (Inr demo_art) demo_file_libs (demo_image_libs ''So happy''))\<^sup>*\<^sup>* demo_start s'
         \<and> (\<exists>v. Banner v \<in> set (fst (s2_last s'))))"
proof -
  have t: "py_strip ''So happy'' \<noteq> []"
    by (simp add: py_strip_def py_lstrip_def py_rstrip_def py_char_simps)
  show ?thesis
    using reachable2.init happy_double_contract t
      Session2.session2_can_predict [OF reachable2.init happy_double_contract t]
    by blast
qed

theorem accepted_upload_same_handling_witness:
  "uploader_accepts doc_types (file_name (demo_upload ''Notes.TXT''))
   \<and> handle_file_app1 demo_art demo_file_libs (demo_upload ''Notes.TXT'')
       = handle_file_app2 demo_art demo_file_libs (demo_upload ''Notes.TXT'')
   \<and> Unsupported_format \<notin> set (handle_file_app1 demo_art demo_file_libs (demo_upload ''Notes.TXT''))"
proof -
  have a: "uploader_accepts doc_types (file_name (demo_upload ''Notes.TXT''))"
    by (simp add: uploader_accepts_def ends_with_def doc_types_def demo_upload_def py_char_simps)
  show ?thesis using a Upload_Filter.accepted_upload_same_handling [OF a] by blast
qed

theorem app2_ocr_needs_windows_path_witness:
  "\<not> host_runs demo_host tesseract_cmd_app2
   \<and> handle_image_app2 demo_art (app2_ocr_libs (\<lambda>_. Inr ()) demo_host) () True
       = [Image_shown, Image_error tesseract_not_found]"
proof -
  have h: "\<not> host_runs demo_host tesseract_cmd_app2"
    by (simp add: demo_host_def tesseract_cmd_app2_def)
  show ?thesis
    using h Ocr.app2_ocr_needs_windows_path [OF h, of demo_art "\<lambda>_. Inr ()" "()" True] by simp
qed

theorem reachable2_upload_answered_witness:
  "reachable2 (Inr demo_art) demo_file_libs (demo_image_libs ''So happy'') demo_upload_step
   \<and> s2_file demo_upload_step = Some (demo_upload ''notes.txt'')
   \<and> handle_file_app2 demo_art demo_file_libs (demo_upload ''notes.txt'') \<noteq> []"
proof -
  let ?L = "Inr demo_art :: nat list list artifacts py_result"
  have ok: "snd (s2_last demo_start) = None"
    by (simp add: init2_def s2_last_rerun2 run_app2_no_crash_aux [OF happy_double_contract, THEN conjunct1])
  have ne: "fst (s2_last demo_start) \<noteq> []"
    by (simp add: init2_def s2_last_rerun2 run_app2_loaded_nonempty)
  have acc: "uploader_accepts doc_types (file_name (demo_upload ''notes.txt''))"
    by (simp add: uploader_accepts_def ends_with_def doc_types_def demo_upload_def py_char_simps)
  have "enabled2 (s2_last demo_start) (Set_upload (Some (demo_upload ''notes.txt'')))"
    using ok ne acc by (simp add: enabled2_def)
  then have "step2 ?L demo_file_libs (demo_image_libs ''So happy'') demo_start demo_upload_step"
    by (rule step2.interact)
  then have r: "reachable2 ?L demo_file_libs (demo_image_libs ''So happy'') demo_upload_step"
    by (rule reachable2.step [OF reachable2.init])
  have ok1: "snd (s2_last demo_upload_step) = None"
    by (simp add: interact2_def s2_last_rerun2 run_app2_no_crash_aux [OF happy_double_contract, THEN conjunct1])
  have ne1: "fst (s2_last demo_upload_step) \<noteq> []"
    by (simp add: interact2_def s2_last_rerun2 run_app2_loaded_nonempty)
  have f: "s2_file demo_upload_step = Some (demo_upload ''notes.txt'')"
    using ok1 ne1 by (simp add: interact2_def rerun2_def settle_def Let_def apply_event2_def)
  show ?thesis
    using r f Session2.reachable2_upload_answered [OF r f, of demo_art demo_file_libs] by blast
qed

theorem app_session_click_fails_witness:
  "reachable0 (demo_image_libs ''So happy'') demo_app_session
   \<and> s0_image demo_app_session = Some ()
   \<and> image_open (demo_image_libs ''So happy'') () = Inr ()
   \<and> image_to_string (demo_image_libs ''So happy'') () = Inr ''So happy''
   \<and> py_strip ''So happy'' \<noteq> []
   \<and> step0 (demo_image_libs ''So happy'') demo_app_session
       (interact0 (demo_image_libs ''So happy'') demo_app_session Click_predict0)
   \<and> fst (s0_last (interact0 (demo_image_libs ''So happy'') demo_app_session Click_predict0))
       = [Header, Image_shown, Extracted_text ''So happy'', Image_error (NameError ''predict_personality'')]"
proof -
  have "step0 (demo_image_libs ''So happy'') (init0 (demo_image_libs ''So happy'')) demo_app_session"
    by (rule step0.interact) (simp add: enabled0_def)
  then have r: "reachable0 (demo_image_libs ''So happy'') demo_app_session"
    by (rule reachable0.step [OF reachable0.init])
  have i: "s0_image demo_app_session = Some ()"
    by (simp add: interact0_def apply_event0_def)
  have o: "image_open (demo_image_libs ''So happy'') () = Inr ()"
    and t: "image_to_string (demo_image_libs ''So happy'') () = Inr ''So happy''"
    by (simp_all add: demo_image_libs_def)
  have p: "py_strip ''So happy'' \<noteq> []"
    by (simp add: py_strip_def py_lstrip_def py_rstrip_def py_char_simps)
  show ?thesis
    using r i o t p Session_App.app_session_click_fails [OF r i o t p] by blast
qed


theorem csv_rows_witness:
  "file_ext (file_name (demo_upload ''posts.csv'')) = Inr ''csv''
   \<and> read_csv (demo_libs (Inr (demo_frame [CStr ''I am SO happy!!'', CStr ''nothing here''])) (Inl UnicodeDecodeError) (Inr []))
       (file_data (demo_upload ''posts.csv'')) = Inr (demo_frame [CStr ''I am SO happy!!'', CStr ''nothing here''])
   \<and> map_of (columns (demo_frame [CStr ''I am SO happy!!'', CStr ''nothing here''])) ''text''
       = Some (map CStr [''I am SO happy!!'', ''nothing here''])
   \<and> list_all (\<lambda>p. predict_personality demo_art p = Inr (if p = ''nothing here'' then ''sad'' else ''happy''))
       [''I am SO happy!!'', ''nothing here'']
   \<and> handle_file_app1 demo_art
       (demo_libs (Inr (demo_frame [CStr ''I am SO happy!!'', CStr ''nothing here''])) (Inl UnicodeDecodeError) (Inr []))
       (demo_upload ''posts.csv'')
     = [Predictions_done, Csv_table [(CStr ''I am SO happy!!'', ''happy''), (CStr ''nothing here'', ''sad'')]]"
proof -
  let ?df = "demo_frame [CStr ''I am SO happy!!'', CStr ''nothing here'']"
  let ?lab = "\<lambda>p :: pystr. if p = ''nothing here'' then ''sad'' else ''happy''"
  have e: "file_ext (file_name (demo_upload ''posts.csv'')) = Inr ''csv''"
    by (simp add: ext_of_demo py_char_simps)
  have r: "read_csv (demo_libs (Inr ?df) (Inl UnicodeDecodeError) (Inr [])) (file_data (demo_upload ''posts.csv'')) = Inr ?df"
    by (simp add: demo_libs_def)
  have m: "map_of (columns ?df) ''text'' = Some (map CStr [''I am SO happy!!'', ''nothing here''])"
    by (simp add: demo_frame_def)
  have l: "\<And>p. p \<in> set [''I am SO happy!!'', ''nothing here''] \<Longrightarrow> predict_personality demo_art p = Inr (?lab p)"
    using happy_double_examples by auto
  show ?thesis
    using e r m l App.csv_rows [OF e r m l] by simp
qed

theorem txt_rows_witness:
  "file_ext (file_name (demo_upload ''notes.txt'')) = Inr ''txt''
   \<and> decode_utf8 (demo_libs (Inl UnicodeDecodeError) (Inr (''hello'' @ [CHR 0x0A, CHR 0x0A] @ ''world'' @ [CHR 0x0A])) (Inr []))
       (file_data (demo_upload ''notes.txt'')) = Inr (''hello'' @ [CHR 0x0A, CHR 0x0A] @ ''world'' @ [CHR 0x0A])
   \<and> (\<forall>l. predict_personality demo_art l = Inr (projr (predict_personality demo_art l)))
   \<and> handle_file_app1 demo_art
       (demo_libs (Inl UnicodeDecodeError) (Inr (''hello'' @ [CHR 0x0A, CHR 0x0A] @ ''world'' @ [CHR 0x0A])) (Inr []))
       (demo_upload ''notes.txt'')
     = [Predictions_done, Posts_table [(''hello'', projr (predict_personality demo_art ''hello'')),
                                       (''world'', projr (predict_personality demo_art ''world''))]]"
proof -
  have e: "file_ext (file_name (demo_upload ''notes.txt'')) = Inr ''txt''"
    by (simp add: ext_of_demo py_char_simps)
  have d: "decode_utf8 (demo_libs (Inl UnicodeDecodeError) (Inr (''hello'' @ [CHR 0x0A, CHR 0x0A] @ ''world'' @ [CHR 0x0A])) (Inr []))
       (file_data (demo_upload ''notes.txt'')) = Inr (''hello'' @ [CHR 0x0A, CHR 0x0A] @ ''world'' @ [CHR 0x0A])"
    by (simp add: demo_libs_def)
  have l: "\<And>l. predict_personality demo_art l = Inr (projr (predict_personality demo_art l))"
  proof -
    fix l
    have "predict_personality demo_art l \<in> {Inr ''happy'', Inr ''sad''}"
      by (rule predict_personality_contract [OF happy_double_contract])
    then show "predict_personality demo_art l = Inr (projr (predict_personality demo_art l))"
      by auto
  qed
  have f: "filter (\<lambda>l. py_strip l \<noteq> []) (py_splitlines (''hello'' @ [CHR 0x0A, CHR 0x0A] @ ''world'' @ [CHR 0x0A]))
           = [''hello'', ''world'']"
    using txt_lines_example by (simp add: txt_lines_def is_nonblank_def [abs_def])
  show ?thesis
    using e d l f App.txt_rows [OF e d l] by simp
qed

end
